theory Spec2Isabelle
  imports Main "HOL-Library.Sublist"
begin

section \<open>Data model\<close>

text \<open>
  The program is one Python module, \<^verbatim>\<open>app.py\<close>. It talks to three outside parties:
  the process environment, the search provider (one HTTP GET) and the conversation
  engine (the OpenAI client). Every call to an outside party is written to a trace of
  events, and the outside party's answer is a function of the trace so far, the call
  itself included as its last event. An exception is a value \<open>Inl e\<close>; a function that
  can raise after it has performed calls returns its trace together with the result.
\<close>

text \<open>Decoded JSON, as \<^verbatim>\<open>response.json()\<close> and \<^verbatim>\<open>json.loads\<close> produce it. A
  Python dict is the list of its items (the keys are distinct).\<close>

datatype json =
    JNull
  | JBool bool
  | JNum int
  | JStr string
  | JArr "json list"
  | JObj "(string \<times> json) list"

text \<open>The exception classes the module raises or lets through.\<close>

datatype error =
    EnvironmentError string
  | OpenAIError string
  | ValueError string
  | JSONDecodeError
  | KeyError string
  | TypeError
  | AttributeError
  | IndexError
  | UnicodeEncodeError

text \<open>What \<^verbatim>\<open>requests.get\<close>, \<^verbatim>\<open>raise_for_status\<close> and \<^verbatim>\<open>response.json()\<close> do with one
  request. \<open>Raised e\<close> is \<^verbatim>\<open>requests.get\<close> raising an exception that is not a
  \<^verbatim>\<open>requests.RequestException\<close>: it raises UnicodeEncodeError while it encodes the
  parameters when the query holds a lone surrogate, whether the provider can be reached
  or not. The next three are the \<^verbatim>\<open>requests.RequestException\<close>s the three calls raise
  (with the exception's message), the last is the decoded body.\<close>

datatype http_result =
    Raised error
  | RequestFailed string
  | StatusError string
  | BodyNotJson string
  | JsonBody json

record tool_call =
  call_id :: string
  func_name :: string
  arguments :: string

record tool_output =
  tool_call_id :: string
  output_value :: "string option"

text \<open>A polled run: its status string and the pending tool calls of
  \<^verbatim>\<open>required_action.submit_tool_outputs\<close> (\<open>None\<close> when \<^verbatim>\<open>required_action\<close> is
  \<^verbatim>\<open>None\<close>).\<close>

record run =
  status :: string
  required_action :: "tool_call list option"

text \<open>One content block of a thread message: only a text block has \<^verbatim>\<open>.text.value\<close>.\<close>

datatype content_block = TextBlock string | ImageFileBlock string

datatype event =
    Print string
  | HttpGet string "(string \<times> json) list"
  | AssistantsCreate string string
  | ThreadsCreate
  | MessagesCreate string string string
  | RunsCreate string string string
  | Sleep
  | RunsRetrieve string string
  | SubmitToolOutputs string string "tool_output list"
  | MessagesList string
  | Launch

text \<open>
  The outside world. \<open>environ\<close> is the process environment read by \<^verbatim>\<open>os.getenv\<close>;
  \<open>json_loads\<close> is Python's \<^verbatim>\<open>json.loads\<close> (\<open>None\<close> when it raises) and \<open>py_repr\<close>
  Python's \<^verbatim>\<open>str\<close> on numbers, lists and dicts, both interpreter behaviour taken as
  given; \<open>openai_client\<close> is the constructor \<^verbatim>\<open>OpenAI(api_key=...)\<close>, which may raise.
  The remaining fields answer a call from the trace that ends with that call.
\<close>

record world =
  environ :: "string \<Rightarrow> string option"
  json_loads :: "string \<Rightarrow> json option"
  py_repr :: "json \<Rightarrow> string"
  openai_client :: "string option \<Rightarrow> error option"
  http_get :: "event list \<Rightarrow> http_result"
  assistants_create :: "event list \<Rightarrow> error + string"
  threads_create :: "event list \<Rightarrow> error + string"
  messages_create :: "event list \<Rightarrow> error option"
  runs_create :: "event list \<Rightarrow> error + string"
  runs_retrieve :: "event list \<Rightarrow> error + run"
  submit_tool_outputs :: "event list \<Rightarrow> error option"
  messages_list :: "event list \<Rightarrow> error + content_block list list"

text \<open>The module-level objects \<^verbatim>\<open>conversation_thread\<close> and
  \<^verbatim>\<open>ebay_price_validation_assistant\<close>, by their ids.\<close>

record globals =
  thread_id :: string
  assistant_id :: string

section \<open>The search client: \<^verbatim>\<open>get_products\<close>\<close>

text \<open>\<^verbatim>\<open>d.get(key, default)\<close> on a dict.\<close>

definition dict_get :: "(string \<times> json) list \<Rightarrow> string \<Rightarrow> json \<Rightarrow> json" where
  "dict_get d k dflt = (case map_of d k of None \<Rightarrow> dflt | Some v \<Rightarrow> v)"

text \<open>What an f-string writes for a value: \<^verbatim>\<open>str(v)\<close>.\<close>

definition py_str :: "world \<Rightarrow> json \<Rightarrow> string" where
  "py_str w v =
     (case v of
        JStr s \<Rightarrow> s
      | JNull \<Rightarrow> ''None''
      | JBool b \<Rightarrow> (if b then ''True'' else ''False'')
      | _ \<Rightarrow> py_repr w v)"

text \<open>The four lines appended to \<^verbatim>\<open>markdown_output\<close> for one result
  (lines 68 to 71).\<close>

definition listing_block :: "string \<Rightarrow> string \<Rightarrow> string \<Rightarrow> string \<Rightarrow> string" where
  "listing_block title price link thumbnail =
     ''- **Title:** ['' @ title @ '']('' @ link @ '')'' @ [CHR 0x0A] @
     ''  - **Price:** '' @ price @ [CHR 0x0A] @
     ''  - **Link:** [View on eBay]('' @ link @ '')'' @ [CHR 0x0A] @
     ''  - **Image:** ![Image]('' @ thumbnail @ '')'' @ [CHR 0x0A, CHR 0x0A]"

text \<open>The body of the \<^verbatim>\<open>for\<close> loop (lines 64 to 71). \<^verbatim>\<open>.get\<close> on anything but a dict
  raises AttributeError, which the \<^verbatim>\<open>except\<close> clause does not catch.\<close>

definition render_result :: "world \<Rightarrow> json \<Rightarrow> error + string" where
  "render_result w result =
     (case result of
        JObj r \<Rightarrow>
          (case dict_get r ''price'' (JObj []) of
             JObj p \<Rightarrow>
               Inr (listing_block
                      (py_str w (dict_get r ''title'' JNull))
                      (py_str w (dict_get p ''raw'' (JStr ''N/A'')))
                      (py_str w (dict_get r ''link'' JNull))
                      (py_str w (dict_get r ''thumbnail'' JNull)))
           | _ \<Rightarrow> Inl AttributeError)
      | _ \<Rightarrow> Inl AttributeError)"

text \<open>The \<^verbatim>\<open>for\<close> loop over \<^verbatim>\<open>top_3_results\<close>, with \<^verbatim>\<open>markdown_output\<close> as
  accumulator.\<close>

fun render_results :: "world \<Rightarrow> json list \<Rightarrow> string \<Rightarrow> error + string" where
  "render_results w [] markdown_output = Inr markdown_output"
| "render_results w (result # rest) markdown_output =
     (case render_result w result of
        Inl e \<Rightarrow> Inl e
      | Inr block \<Rightarrow> render_results w rest (markdown_output @ block))"

text \<open>\<^verbatim>\<open>v[:3]\<close>. A list gives its first three elements and a string its first three
  characters (iterated over as one-character strings); \<^verbatim>\<open>None\<close>, booleans and numbers
  are not subscriptable, and a dict cannot be sliced (TypeError; Python 3.12 and later
  raise KeyError for the dict).\<close>

definition top_3 :: "json \<Rightarrow> error + json list" where
  "top_3 v =
     (case v of
        JArr xs \<Rightarrow> Inr (take 3 xs)
      | JStr s \<Rightarrow> Inr (map (\<lambda>c. JStr [c]) (take 3 s))
      | _ \<Rightarrow> Inl TypeError)"

text \<open>Lines 58 to 72, from the decoded body on.\<close>

definition render_data :: "world \<Rightarrow> json \<Rightarrow> error + string" where
  "render_data w data =
     (case data of
        JObj d \<Rightarrow>
          (case top_3 (dict_get d ''organic_results'' (JArr [])) of
             Inl e \<Rightarrow> Inl e
           | Inr top_3_results \<Rightarrow> render_results w top_3_results [])
      | _ \<Rightarrow> Inl AttributeError)"

definition base_url :: string where
  "base_url = ''https://serpapi.com/search.json''"

definition search_params :: "json \<Rightarrow> string \<Rightarrow> (string \<times> json) list" where
  "search_params query api_key =
     [(''engine'', JStr ''ebay''), (''_nkw'', query),
      (''ebay_domain'', JStr ''ebay.com''), (''api_key'', JStr api_key)]"

text \<open>\<^verbatim>\<open>get_products(query)\<close>. The result \<open>Inr None\<close> is the bare \<^verbatim>\<open>return\<close>;
  \<^verbatim>\<open>not api_key\<close> holds for an unset variable and for an empty one. The \<^verbatim>\<open>except\<close>
  clause of line 73 catches \<^verbatim>\<open>requests.RequestException\<close> only: any other exception
  of the \<^verbatim>\<open>try\<close> block leaves the function.\<close>

definition get_products ::
  "world \<Rightarrow> json \<Rightarrow> event list \<Rightarrow> (error + string option) \<times> event list" where
  "get_products w query tr =
     (case environ w ''SERPAPI'' of
        None \<Rightarrow> (Inr None, tr @ [Print ''SERPAPI environment variable is not set.''])
      | Some api_key \<Rightarrow>
          if api_key = [] then
            (Inr None, tr @ [Print ''SERPAPI environment variable is not set.''])
          else
            let tr1 = tr @ [HttpGet base_url (search_params query api_key)] in
            (case http_get w tr1 of
               Raised e \<Rightarrow> (Inl e, tr1)
             | RequestFailed msg \<Rightarrow> (Inr None, tr1 @ [Print (''Request failed: '' @ msg)])
             | StatusError msg \<Rightarrow> (Inr None, tr1 @ [Print (''Request failed: '' @ msg)])
             | BodyNotJson msg \<Rightarrow> (Inr None, tr1 @ [Print (''Request failed: '' @ msg)])
             | JsonBody data \<Rightarrow>
                 (case render_data w data of
                    Inl e \<Rightarrow> (Inl e, tr1)
                  | Inr markdown_output \<Rightarrow> (Inr (Some markdown_output), tr1))))"

section \<open>The tool dispatcher: \<^verbatim>\<open>call_functions\<close>\<close>

text \<open>\<^verbatim>\<open>arguments['query']\<close> on the decoded arguments: a dict without the key raises
  KeyError, and any other JSON value cannot be indexed by a string (TypeError).\<close>

definition subscript :: "json \<Rightarrow> string \<Rightarrow> error + json" where
  "subscript v k =
     (case v of
        JObj d \<Rightarrow> (case map_of d k of None \<Rightarrow> Inl (KeyError k) | Some x \<Rightarrow> Inr x)
      | _ \<Rightarrow> Inl TypeError)"

text \<open>The \<^verbatim>\<open>for\<close> loop of \<^verbatim>\<open>call_functions\<close> (lines 143 to 154), with
  \<^verbatim>\<open>tool_outputs\<close> as accumulator. The arguments are decoded before the name is
  looked at; the first exception ends the loop.\<close>

fun call_functions_loop ::
  "world \<Rightarrow> tool_call list \<Rightarrow> tool_output list \<Rightarrow> event list \<Rightarrow>
   (error + tool_output list) \<times> event list" where
  "call_functions_loop w [] tool_outputs tr = (Inr tool_outputs, tr)"
| "call_functions_loop w (action # rest) tool_outputs tr =
     (case json_loads w (arguments action) of
        None \<Rightarrow> (Inl JSONDecodeError, tr)
      | Some args \<Rightarrow>
          if func_name action = ''search_ebay'' then
            (case subscript args ''query'' of
               Inl e \<Rightarrow> (Inl e, tr)
             | Inr query \<Rightarrow>
                 (case get_products w query tr of
                    (Inl e, tr') \<Rightarrow> (Inl e, tr')
                  | (Inr out, tr') \<Rightarrow>
                      call_functions_loop w rest
                        (tool_outputs @ [\<lparr>tool_call_id = call_id action, output_value = out\<rparr>])
                        tr'))
          else (Inl (ValueError (''Unknown function: '' @ func_name action)), tr))"

text \<open>\<^verbatim>\<open>call_functions(required_actions, run_id)\<close>: the loop, then the one call of
  \<^verbatim>\<open>submit_tool_outputs\<close> (lines 156 to 160), which may itself raise.\<close>

definition call_functions ::
  "world \<Rightarrow> globals \<Rightarrow> tool_call list \<Rightarrow> string \<Rightarrow> event list \<Rightarrow>
   (error + unit) \<times> event list" where
  "call_functions w g required_actions run_id tr =
     (case call_functions_loop w required_actions [] tr of
        (Inl e, tr') \<Rightarrow> (Inl e, tr')
      | (Inr tool_outputs, tr') \<Rightarrow>
          let tr'' = tr' @ [SubmitToolOutputs (thread_id g) run_id tool_outputs] in
          (case submit_tool_outputs w tr'' of
             Some e \<Rightarrow> (Inl e, tr'')
           | None \<Rightarrow> (Inr (), tr'')))"

section \<open>The conversation session: \<^verbatim>\<open>process_query\<close>\<close>

text \<open>Lines 127 to 135: the text of the first content block of the first listed
  message. \<^verbatim>\<open>data[0]\<close> and \<^verbatim>\<open>content[0]\<close> raise IndexError on an empty list, and
  a block that is not text has no \<^verbatim>\<open>.text\<close>.\<close>

definition final_response :: "world \<Rightarrow> globals \<Rightarrow> event list \<Rightarrow> (error + string) \<times> event list" where
  "final_response w g tr =
     (let tr1 = tr @ [MessagesList (thread_id g)] in
      case messages_list w tr1 of
        Inl e \<Rightarrow> (Inl e, tr1)
      | Inr data \<Rightarrow>
          (case data of
             [] \<Rightarrow> (Inl IndexError, tr1)
           | content # _ \<Rightarrow>
               (case content of
                  [] \<Rightarrow> (Inl IndexError, tr1)
                | TextBlock response # _ \<Rightarrow> (Inr response, tr1)
                | ImageFileBlock _ # _ \<Rightarrow> (Inl AttributeError, tr1))))"

text \<open>One pass through the body of \<^verbatim>\<open>while True\<close> (lines 116 to 138). The result
  \<open>None\<close> is \<^verbatim>\<open>continue\<close>; \<open>Some r\<close> leaves the loop, by \<^verbatim>\<open>return\<close> (\<open>Inr\<close>) or by an
  exception (\<open>Inl\<close>).\<close>

definition poll_step ::
  "world \<Rightarrow> globals \<Rightarrow> string \<Rightarrow> event list \<Rightarrow> (error + string) option \<times> event list" where
  "poll_step w g run_id tr =
     (let tr1 = tr @ [Sleep, RunsRetrieve (thread_id g) run_id] in
      case runs_retrieve w tr1 of
        Inl e \<Rightarrow> (Some (Inl e), tr1)
      | Inr response_status \<Rightarrow>
          (case (if status response_status = ''requires_action'' then
                   (case required_action response_status of
                      None \<Rightarrow> (Inl AttributeError, tr1)
                    | Some tool_calls \<Rightarrow> call_functions w g tool_calls run_id tr1)
                 else (Inr (), tr1)) of
             (Inl e, tr2) \<Rightarrow> (Some (Inl e), tr2)
           | (Inr _, tr2) \<Rightarrow>
               if status response_status = ''completed'' then
                 (case final_response w g tr2 of (r, tr3) \<Rightarrow> (Some r, tr3))
               else (None, tr2)))"

text \<open>The \<^verbatim>\<open>while True\<close> loop. It has no bound: the value \<open>None\<close> of the loop is the
  run that never leaves it.\<close>

partial_function (option) poll_loop ::
  "world \<Rightarrow> globals \<Rightarrow> string \<Rightarrow> event list \<Rightarrow> ((error + string) \<times> event list) option" where
  "poll_loop w g run_id tr =
     (case poll_step w g run_id tr of
        (Some r, tr') \<Rightarrow> Some (r, tr')
      | (None, tr') \<Rightarrow> poll_loop w g run_id tr')"

definition run_instructions :: string where
  "run_instructions = ''The user needs help validating the price of an item on eBay.''"

text \<open>\<^verbatim>\<open>process_query(user_query, interaction_history)\<close>: \<open>None\<close> when the call never
  returns, \<open>Some (Inr reply, tr)\<close> when it returns \<open>reply\<close>, \<open>Some (Inl e, tr)\<close> when
  it raises \<open>e\<close>.\<close>

definition process_query ::
  "world \<Rightarrow> globals \<Rightarrow> string \<Rightarrow> (string \<times> string) list \<Rightarrow> event list \<Rightarrow>
   ((error + string) \<times> event list) option" where
  "process_query w g user_query interaction_history tr =
     (let tr1 = tr @ [MessagesCreate (thread_id g) ''user'' user_query] in
      case messages_create w tr1 of
        Some e \<Rightarrow> Some (Inl e, tr1)
      | None \<Rightarrow>
          let tr2 = tr1 @ [RunsCreate (thread_id g) (assistant_id g) run_instructions] in
          (case runs_create w tr2 of
             Inl e \<Rightarrow> Some (Inl e, tr2)
           | Inr run_id \<Rightarrow> poll_loop w g run_id tr2))"

section \<open>Module initialisation\<close>

text \<open>Lines 10 to 15, 77 to 100 and 203 to 204, in the order the interpreter runs them:
  the client is built first, then the key is checked, then the assistant and the thread
  are created, and \<^verbatim>\<open>demo.launch()\<close> starts serving.\<close>

definition module_init :: "world \<Rightarrow> event list \<Rightarrow> (error + globals) \<times> event list" where
  "module_init w tr =
     (let api_key = environ w ''OPENAI_API_KEY'' in
      case openai_client w api_key of
        Some e \<Rightarrow> (Inl e, tr)
      | None \<Rightarrow>
          if api_key = None \<or> api_key = Some [] then
            (Inl (EnvironmentError ''API key for OpenAI not found in environment variables.''), tr)
          else
            let tr1 = tr @ [AssistantsCreate ''eBay Price Validator'' ''gpt-4-1106-preview''] in
            (case assistants_create w tr1 of
               Inl e \<Rightarrow> (Inl e, tr1)
             | Inr aid \<Rightarrow>
                 let tr2 = tr1 @ [ThreadsCreate] in
                 (case threads_create w tr2 of
                    Inl e \<Rightarrow> (Inl e, tr2)
                  | Inr tid \<Rightarrow> (Inr \<lparr>thread_id = tid, assistant_id = aid\<rparr>, tr2))))"

definition main :: "world \<Rightarrow> (error + globals) \<times> event list" where
  "main w =
     (case module_init w [] of
        (Inl e, tr) \<Rightarrow> (Inl e, tr)
      | (Inr g, tr) \<Rightarrow> (Inr g, tr @ [Launch]))"

section \<open>Notions used to state the properties\<close>

text \<open>The calls of \<^verbatim>\<open>submit_tool_outputs\<close> in a trace, in order: thread id, run id and
  the batch.\<close>

fun submissions :: "event list \<Rightarrow> (string \<times> string \<times> tool_output list) list" where
  "submissions [] = []"
| "submissions (SubmitToolOutputs t r outs # evs) = (t, r, outs) # submissions evs"
| "submissions (_ # evs) = submissions evs"

text \<open>The trace at the moment a pass of the poll loop that started at \<open>tr\<close> has asked
  for the run's status.\<close>

definition poll_trace :: "globals \<Rightarrow> string \<Rightarrow> event list \<Rightarrow> event list" where
  "poll_trace g run_id tr = tr @ [Sleep, RunsRetrieve (thread_id g) run_id]"

text \<open>A polled run whose dispatch, when its status asks for one, returns without
  raising.\<close>

definition dispatch_ok :: "world \<Rightarrow> globals \<Rightarrow> run \<Rightarrow> bool" where
  "dispatch_ok w g r \<longleftrightarrow>
     (status r = ''requires_action'' \<longrightarrow>
        (\<exists>acts. required_action r = Some acts \<and>
           (\<forall>run_id t. fst (call_functions w g acts run_id t) = Inr ())))"

text \<open>The trace after \<open>n\<close> passes of the poll loop that started at \<open>tr\<close>, when each of
  them ended in \<^verbatim>\<open>continue\<close>.\<close>

fun poll_passes ::
  "world \<Rightarrow> globals \<Rightarrow> string \<Rightarrow> nat \<Rightarrow> event list \<Rightarrow> event list option" where
  "poll_passes w g run_id 0 tr = Some tr"
| "poll_passes w g run_id (Suc n) tr =
     (case poll_step w g run_id tr of
        (None, tr') \<Rightarrow> poll_passes w g run_id n tr'
      | (Some _, _) \<Rightarrow> None)"

text \<open>An entry of the shape the provider documents: a dict whose \<^verbatim>\<open>price\<close>, when it
  has one, is a dict.\<close>

definition is_listing :: "json \<Rightarrow> bool" where
  "is_listing e =
     (case e of
        JObj r \<Rightarrow> (case dict_get r ''price'' (JObj []) of JObj _ \<Rightarrow> True | _ \<Rightarrow> False)
      | _ \<Rightarrow> False)"

section \<open>Example worlds\<close>

definition demo_globals :: globals where
  "demo_globals = \<lparr>thread_id = ''thread_1'', assistant_id = ''asst_1''\<rparr>"

text \<open>Five results: the second has no price, the third a price range without
  \<^verbatim>\<open>raw\<close>.\<close>

definition demo_results :: "json list" where
  "demo_results =
     [JObj [(''title'', JStr ''Sandal A''), (''price'', JObj [(''raw'', JStr ''$10.00'')]),
            (''link'', JStr ''l1''), (''thumbnail'', JStr ''t1'')],
      JObj [(''title'', JStr ''Sandal B''), (''link'', JStr ''l2''), (''thumbnail'', JStr ''t2'')],
      JObj [(''title'', JStr ''Sandal C''), (''price'', JObj [(''from'', JObj [])]),
            (''link'', JStr ''l3''), (''thumbnail'', JStr ''t3'')],
      JObj [(''title'', JStr ''Sandal D''), (''price'', JObj [(''raw'', JStr ''$40.00'')]),
            (''link'', JStr ''l4''), (''thumbnail'', JStr ''t4'')],
      JObj [(''title'', JStr ''Sandal E''), (''price'', JObj [(''raw'', JStr ''$50.00'')]),
            (''link'', JStr ''l5''), (''thumbnail'', JStr ''t5'')]]"

text \<open>\<^verbatim>\<open>json.loads\<close> on the two argument texts the examples use.\<close>

definition demo_json_loads :: "string \<Rightarrow> json option" where
  \<open>demo_json_loads s =
     (if s = ''{"query": "red mug"}'' then Some (JObj [(''query'', JStr ''red mug'')])
      else if s = ''{}'' then Some (JObj [])
      else None)\<close>

text \<open>Both credentials set, a provider that answers every search with the five
  results, an engine whose run is completed at the first poll.\<close>

definition demo_world :: world where
  "demo_world =
     \<lparr>environ = (\<lambda>k. if k = ''SERPAPI'' then Some ''serp-key''
                     else if k = ''OPENAI_API_KEY'' then Some ''sk-key'' else None),
      json_loads = demo_json_loads,
      py_repr = (\<lambda>_. ''?''),
      openai_client = (\<lambda>k. case k of None \<Rightarrow> Some (OpenAIError ''api_key must be set'')
                                 | Some _ \<Rightarrow> None),
      http_get = (\<lambda>_. JsonBody (JObj [(''organic_results'', JArr demo_results)])),
      assistants_create = (\<lambda>_. Inr ''asst_1''),
      threads_create = (\<lambda>_. Inr ''thread_1''),
      messages_create = (\<lambda>_. None),
      runs_create = (\<lambda>_. Inr ''run_1''),
      runs_retrieve = (\<lambda>_. Inr \<lparr>status = ''completed'', required_action = None\<rparr>),
      submit_tool_outputs = (\<lambda>_. None),
      messages_list = (\<lambda>_. Inr [[TextBlock ''About $10.'']])\<rparr>"

definition offline_world :: world where
  "offline_world = demo_world\<lparr>http_get := (\<lambda>_. RequestFailed ''connection refused'')\<rparr>"

definition no_serpapi_world :: world where
  "no_serpapi_world =
     demo_world\<lparr>environ := (\<lambda>k. if k = ''OPENAI_API_KEY'' then Some ''sk-key'' else None)\<rparr>"

definition no_openai_key_world :: world where
  "no_openai_key_world =
     demo_world\<lparr>environ := (\<lambda>k. if k = ''SERPAPI'' then Some ''serp-key'' else None)\<rparr>"

definition red_mug_call :: "string \<Rightarrow> tool_call" where
  \<open>red_mug_call i =
     \<lparr>call_id = i, func_name = ''search_ebay'', arguments = ''{"query": "red mug"}''\<rparr>\<close>

text \<open>An engine whose run asks for a search at the first poll, is in progress for the
  next two polls and has failed from then on.\<close>

definition stalled_world :: world where
  "stalled_world =
     no_serpapi_world
       \<lparr>runs_retrieve :=
          (\<lambda>h. if length h \<le> 4 then
                  Inr \<lparr>status = ''requires_action'',
                       required_action = Some [red_mug_call ''call_1'']\<rparr>
                else if length h \<le> 9 then
                  Inr \<lparr>status = ''in_progress'', required_action = None\<rparr>
                else Inr \<lparr>status = ''failed'', required_action = None\<rparr>)\<rparr>"

text \<open>An unreachable provider, and a query that holds the lone surrogate U+D800 (written
  as the three bytes of its code point): \<^verbatim>\<open>requests.get\<close> cannot encode that query.\<close>

definition lone_surrogate :: string where
  "lone_surrogate = [CHR 0xED, CHR 0xA0, CHR 0x80]"

definition surrogate_world :: world where
  "surrogate_world =
     demo_world
       \<lparr>http_get :=
          (\<lambda>h. if h \<noteq> [] \<and>
                   last h = HttpGet base_url (search_params (JStr lone_surrogate) ''serp-key'')
                then Raised UnicodeEncodeError
                else RequestFailed ''connection refused'')\<rparr>"

text \<open>A provider that answers with a result whose price is \<^verbatim>\<open>null\<close>.\<close>

definition null_price_world :: world where
  "null_price_world =
     demo_world
       \<lparr>http_get :=
          (\<lambda>_. JsonBody (JObj [(''organic_results'',
                  JArr [JObj [(''title'', JStr ''Sandal A''), (''price'', JNull),
                              (''link'', JStr ''l1''), (''thumbnail'', JStr ''t1'')]])]))\<rparr>"

text \<open>A provider that answers the first search with the five results and every later
  one with a JSON list, on which \<^verbatim>\<open>data.get\<close> raises AttributeError.\<close>

definition flaky_world :: world where
  "flaky_world =
     demo_world
       \<lparr>http_get :=
          (\<lambda>h. if length h \<le> 1 then JsonBody (JObj [(''organic_results'', JArr demo_results)])
                else JsonBody (JArr []))\<rparr>"

text \<open>An engine whose run is in progress at the first poll and asks for an unregistered
  function from the second poll on.\<close>

definition late_rogue_world :: world where
  "late_rogue_world =
     demo_world
       \<lparr>runs_retrieve :=
          (\<lambda>h. if length h \<le> 4 then Inr \<lparr>status = ''in_progress'', required_action = None\<rparr>
                else Inr \<lparr>status = ''requires_action'',
                          required_action =
                            Some [\<lparr>call_id = ''call_1'', func_name = ''foo'',
                                   arguments = ''{}''\<rparr>]\<rparr>)\<rparr>"

text \<open>An engine whose run asks, at every poll, for a function that is not registered.\<close>

definition rogue_world :: world where
  "rogue_world =
     demo_world
       \<lparr>runs_retrieve :=
          (\<lambda>_. Inr \<lparr>status = ''requires_action'',
                     required_action =
                       Some [\<lparr>call_id = ''call_1'', func_name = ''foo'', arguments = ''{}''\<rparr>]\<rparr>)\<rparr>"

text \<open>The request every example search for a red mug sends, and the text the example
  provider's first three results render to.\<close>

definition demo_request :: event where
  "demo_request =
     HttpGet ''https://serpapi.com/search.json''
       [(''engine'', JStr ''ebay''), (''_nkw'', JStr ''red mug''),
        (''ebay_domain'', JStr ''ebay.com''), (''api_key'', JStr ''serp-key'')]"

definition demo_markdown :: string where
  "demo_markdown =
     ''- **Title:** [Sandal A](l1)'' @ [CHR 0x0A] @
     ''  - **Price:** $10.00'' @ [CHR 0x0A] @
     ''  - **Link:** [View on eBay](l1)'' @ [CHR 0x0A] @
     ''  - **Image:** ![Image](t1)'' @ [CHR 0x0A, CHR 0x0A] @
     ''- **Title:** [Sandal B](l2)'' @ [CHR 0x0A] @
     ''  - **Price:** N/A'' @ [CHR 0x0A] @
     ''  - **Link:** [View on eBay](l2)'' @ [CHR 0x0A] @
     ''  - **Image:** ![Image](t2)'' @ [CHR 0x0A, CHR 0x0A] @
     ''- **Title:** [Sandal C](l3)'' @ [CHR 0x0A] @
     ''  - **Price:** N/A'' @ [CHR 0x0A] @
     ''  - **Link:** [View on eBay](l3)'' @ [CHR 0x0A] @
     ''  - **Image:** ![Image](t3)'' @ [CHR 0x0A, CHR 0x0A]"

section \<open>Traces and the search client\<close>

lemma submissions_append: "submissions (xs @ ys) = submissions xs @ submissions ys"
  by (induction xs rule: submissions.induct) auto

lemma get_products_submissions:
  "submissions (snd (get_products w query tr)) = submissions tr"
  by (auto simp: get_products_def Let_def submissions_append
           split: option.splits http_result.splits sum.splits)

lemma get_products_prefix: "prefix tr (snd (get_products w query tr))"
  by (auto simp: get_products_def Let_def
           split: option.splits http_result.splits sum.splits)

lemma render_result_listing:
  "is_listing e \<Longrightarrow>
   \<exists>r p. e = JObj r \<and> dict_get r ''price'' (JObj []) = JObj p \<and>
         render_result w e =
           Inr (listing_block (py_str w (dict_get r ''title'' JNull))
                  (py_str w (dict_get p ''raw'' (JStr ''N/A'')))
                  (py_str w (dict_get r ''link'' JNull))
                  (py_str w (dict_get r ''thumbnail'' JNull)))"
  by (auto simp: is_listing_def render_result_def split: json.splits)

lemma render_results_blocks:
  "list_all is_listing xs \<Longrightarrow>
   \<exists>blocks. render_results w xs acc = Inr (acc @ concat blocks) \<and>
            map (render_result w) xs = map Inr blocks"
proof (induction xs arbitrary: acc)
  case Nil
  show ?case by simp
next
  case (Cons x xs)
  from Cons.prems have x: "is_listing x" and xs: "list_all is_listing xs" by simp_all
  from render_result_listing [OF x] obtain b where b: "render_result w x = Inr b" by blast
  from Cons.IH [OF xs, of "acc @ b"] obtain blocks where
    "render_results w xs (acc @ b) = Inr ((acc @ b) @ concat blocks)"
    "map (render_result w) xs = map Inr blocks"
    by blast
  with b show ?case by (intro exI [of _ "b # blocks"]) simp
qed

lemma get_products_success:
  assumes "environ w ''SERPAPI'' = Some api_key" and "api_key \<noteq> []"
    and "http_get w (tr @ [HttpGet base_url (search_params query api_key)]) = JsonBody (JObj d)"
    and "dict_get d ''organic_results'' (JArr []) = JArr entries"
    and "list_all is_listing (take 3 entries)"
  shows "\<exists>blocks. get_products w query tr =
             (Inr (Some (concat blocks)), tr @ [HttpGet base_url (search_params query api_key)]) \<and>
           map (render_result w) (take 3 entries) = map Inr blocks"
proof -
  from render_results_blocks [OF assms(5), of w "[]"] obtain blocks where
    "render_results w (take 3 entries) [] = Inr (concat blocks)"
    "map (render_result w) (take 3 entries) = map Inr blocks"
    by auto
  with assms(1-4) show ?thesis
    by (intro exI [of _ blocks]) (simp add: get_products_def render_data_def top_3_def)
qed

lemma get_products_blocks:
  assumes "environ w ''SERPAPI'' = Some api_key" and "api_key \<noteq> []"
    and "http_get w (tr @ [HttpGet base_url (search_params query api_key)]) = JsonBody (JObj d)"
    and "dict_get d ''organic_results'' (JArr []) = JArr entries"
    and "list_all is_listing (take 3 entries)"
  shows "\<exists>blocks.
           fst (get_products w query tr) = Inr (Some (concat blocks)) \<and>
           length blocks = min 3 (length entries) \<and>
           (\<forall>i<length blocks. \<exists>r p.
              entries ! i = JObj r \<and> dict_get r ''price'' (JObj []) = JObj p \<and>
              blocks ! i =
                listing_block (py_str w (dict_get r ''title'' JNull))
                  (py_str w (dict_get p ''raw'' (JStr ''N/A'')))
                  (py_str w (dict_get r ''link'' JNull))
                  (py_str w (dict_get r ''thumbnail'' JNull))) \<and>
           (entries = [] \<longrightarrow> fst (get_products w query tr) = Inr (Some []))"
proof -
  from get_products_success [OF assms] obtain blocks where
    gp: "get_products w query tr =
           (Inr (Some (concat blocks)), tr @ [HttpGet base_url (search_params query api_key)])"
    and bl: "map (render_result w) (take 3 entries) = map Inr blocks"
    by blast
  from bl have len: "length blocks = min 3 (length entries)"
    using length_map [of "render_result w" "take 3 entries"] length_map [of Inr blocks]
    by simp
  have each: "\<exists>r p.
              entries ! i = JObj r \<and> dict_get r ''price'' (JObj []) = JObj p \<and>
              blocks ! i =
                listing_block (py_str w (dict_get r ''title'' JNull))
                  (py_str w (dict_get p ''raw'' (JStr ''N/A'')))
                  (py_str w (dict_get r ''link'' JNull))
                  (py_str w (dict_get r ''thumbnail'' JNull))" if i: "i < length blocks" for i
  proof -
    from i len have i3: "i < length (take 3 entries)" by simp
    then have nth: "take 3 entries ! i = entries ! i" by simp
    from assms(5) i3 have "is_listing (take 3 entries ! i)"
      by (simp add: list_all_length)
    with nth have "is_listing (entries ! i)" by simp
    from render_result_listing [OF this, of w] obtain r p where
      rp: "entries ! i = JObj r" "dict_get r ''price'' (JObj []) = JObj p"
        "render_result w (entries ! i) =
           Inr (listing_block (py_str w (dict_get r ''title'' JNull))
                  (py_str w (dict_get p ''raw'' (JStr ''N/A'')))
                  (py_str w (dict_get r ''link'' JNull))
                  (py_str w (dict_get r ''thumbnail'' JNull)))"
      by blast
    have "map (render_result w) (take 3 entries) ! i = map Inr blocks ! i"
      using bl by simp
    with i i3 nth have "render_result w (entries ! i) = Inr (blocks ! i)" by simp
    with rp show ?thesis by auto
  qed
  from len have "entries = [] \<longrightarrow> blocks = []" by auto
  with gp len each show ?thesis
    by (intro exI [of _ blocks]) auto
qed

lemma get_products_block_without_price:
  assumes "environ w ''SERPAPI'' = Some api_key" and "api_key \<noteq> []"
    and "http_get w (tr @ [HttpGet base_url (search_params query api_key)]) = JsonBody (JObj d)"
    and "dict_get d ''organic_results'' (JArr []) = JArr entries"
    and "list_all is_listing (take 3 entries)"
    and "i < min 3 (length entries)"
    and "entries ! i = JObj r"
    and "map_of r ''price'' = None"
  shows "\<exists>before after.
           fst (get_products w query tr) =
             Inr (Some (before @
                        listing_block (py_str w (dict_get r ''title'' JNull)) ''N/A''
                          (py_str w (dict_get r ''link'' JNull))
                          (py_str w (dict_get r ''thumbnail'' JNull)) @
                        after))"
proof -
  let ?b = "listing_block (py_str w (dict_get r ''title'' JNull)) ''N/A''
                          (py_str w (dict_get r ''link'' JNull))
                          (py_str w (dict_get r ''thumbnail'' JNull))"
  from get_products_success [OF assms(1-5)] obtain blocks where
    gp: "get_products w query tr =
           (Inr (Some (concat blocks)), tr @ [HttpGet base_url (search_params query api_key)])"
    and bl: "map (render_result w) (take 3 entries) = map Inr blocks"
    by blast
  from bl have len: "length blocks = min 3 (length entries)"
    using length_map [of "render_result w" "take 3 entries"] length_map [of Inr blocks]
    by simp
  with assms(6) have i: "i < length blocks" by simp
  have "map (render_result w) (take 3 entries) ! i = map Inr blocks ! i"
    using bl by simp
  with i len assms(6) have "render_result w (entries ! i) = Inr (blocks ! i)" by simp
  moreover have "render_result w (JObj r) = Inr ?b"
    using assms(8) by (simp add: render_result_def dict_get_def py_str_def)
  ultimately have bi: "blocks ! i = ?b" using assms(7) by simp
  define before where "before = concat (take i blocks)"
  define after where "after = concat (drop (Suc i) blocks)"
  have "concat blocks = concat (take i blocks @ blocks ! i # drop (Suc i) blocks)"
    using i id_take_nth_drop [of i blocks] by simp
  also have "\<dots> = before @ blocks ! i @ after"
    by (simp add: before_def after_def)
  finally have "concat blocks = before @ ?b @ after"
    by (simp only: bi)
  with gp show ?thesis by auto
qed

section \<open>The dispatcher loop\<close>

lemma loop_submissions:
  "submissions (snd (call_functions_loop w acts outs tr)) = submissions tr"
proof (induction acts arbitrary: outs tr)
  case Nil
  show ?case by simp
next
  case (Cons a acts)
  show ?case
  proof (cases "json_loads w (arguments a)")
    case None
    then show ?thesis by simp
  next
    case (Some args)
    show ?thesis
    proof (cases "func_name a = ''search_ebay''")
      case False
      with Some show ?thesis by simp
    next
      case True
      show ?thesis
      proof (cases "subscript args ''query''")
        case (Inl e)
        with Some True show ?thesis by simp
      next
        case (Inr q)
        obtain r tr' where gp: "get_products w q tr = (r, tr')"
          by (cases "get_products w q tr")
        have sub: "submissions tr' = submissions tr"
          using get_products_submissions [of w q tr] gp by simp
        show ?thesis
          using Some True Inr gp sub Cons.IH
          by (cases r) simp_all
      qed
    qed
  qed
qed

lemma loop_prefix: "prefix tr (snd (call_functions_loop w acts outs tr))"
proof (induction acts arbitrary: outs tr)
  case Nil
  show ?case by simp
next
  case (Cons a acts)
  show ?case
  proof (cases "json_loads w (arguments a)")
    case None
    then show ?thesis by simp
  next
    case (Some args)
    show ?thesis
    proof (cases "func_name a = ''search_ebay''")
      case False
      with Some show ?thesis by simp
    next
      case True
      show ?thesis
      proof (cases "subscript args ''query''")
        case (Inl e)
        with Some True show ?thesis by simp
      next
        case (Inr q)
        obtain r tr' where gp: "get_products w q tr = (r, tr')"
          by (cases "get_products w q tr")
        have sub: "prefix tr tr'"
          using get_products_prefix [of tr w q] gp by simp
        show ?thesis
        proof (cases r)
          case (Inl e)
          then show ?thesis using Some True Inr gp sub by simp
        next
          case (Inr out)
          have "prefix tr' (snd (call_functions_loop w acts
                  (outs @ [\<lparr>tool_call_id = call_id a, output_value = out\<rparr>]) tr'))"
            by (rule Cons.IH)
          with sub have "prefix tr (snd (call_functions_loop w acts
                  (outs @ [\<lparr>tool_call_id = call_id a, output_value = out\<rparr>]) tr'))"
            by (rule prefix_order.trans)
          then show ?thesis using Some True \<open>subscript args ''query'' = Inr q\<close> gp Inr by simp
        qed
      qed
    qed
  qed
qed

lemma loop_append:
  "call_functions_loop w (xs @ ys) outs tr =
     (case call_functions_loop w xs outs tr of
        (Inl e, tr') \<Rightarrow> (Inl e, tr')
      | (Inr outs', tr') \<Rightarrow> call_functions_loop w ys outs' tr')"
  by (induction xs arbitrary: outs tr)
     (auto split: option.splits sum.splits prod.splits)

lemma loop_shift:
  "call_functions_loop w acts outs tr =
     (case call_functions_loop w acts [] tr of
        (Inl e, t) \<Rightarrow> (Inl e, t)
      | (Inr new, t) \<Rightarrow> (Inr (outs @ new), t))"
proof (induction acts arbitrary: outs tr)
  case Nil
  show ?case by simp
next
  case (Cons a acts)
  note ih1 = Cons.IH [of "outs @ [x]" for x]
  note ih2 = Cons.IH [of "[x]" for x]
  show ?case
    apply (simp split: option.splits sum.splits prod.splits)
    apply (intro allI impI conjI)
    apply (subst ih1; subst (asm) ih2; simp split: prod.splits sum.splits)+
    done
qed

lemma loop_outputs:
  "call_functions_loop w acts outs tr = (Inr res, tr') \<Longrightarrow>
   \<exists>new. res = outs @ new \<and> map tool_call_id new = map call_id acts"
proof (induction acts arbitrary: outs tr)
  case Nil
  then show ?case by simp
next
  case (Cons a acts)
  from Cons.prems obtain args q out tr1 where
    step: "call_functions_loop w acts (outs @ [\<lparr>tool_call_id = call_id a, output_value = out\<rparr>]) tr1
             = (Inr res, tr')"
    by (auto split: option.splits if_splits sum.splits prod.splits)
  from Cons.IH [OF step] obtain new where
    "res = (outs @ [\<lparr>tool_call_id = call_id a, output_value = out\<rparr>]) @ new"
    "map tool_call_id new = map call_id acts"
    by blast
  then show ?case
    by (intro exI [of _ "\<lparr>tool_call_id = call_id a, output_value = out\<rparr> # new"]) simp
qed

lemma loop_total:
  assumes "\<forall>a\<in>set acts. func_name a = ''search_ebay''"
    and "\<forall>a\<in>set acts. \<exists>d q. json_loads w (arguments a) = Some (JObj d) \<and> map_of d ''query'' = Some q"
    and "\<forall>q h. \<exists>r. fst (get_products w q h) = Inr r"
  shows "\<exists>res tr'. call_functions_loop w acts outs tr = (Inr res, tr')"
  using assms(1,2)
proof (induction acts arbitrary: outs tr)
  case Nil
  show ?case by simp
next
  case (Cons a acts)
  from Cons.prems obtain d q where
    a: "func_name a = ''search_ebay''" "json_loads w (arguments a) = Some (JObj d)"
       "map_of d ''query'' = Some q"
    by auto
  from assms(3) obtain r where "fst (get_products w q tr) = Inr r" by blast
  then obtain tr1 where gp: "get_products w q tr = (Inr r, tr1)"
    by (cases "get_products w q tr") simp
  from Cons.IH [of "outs @ [\<lparr>tool_call_id = call_id a, output_value = r\<rparr>]" tr1] Cons.prems
  obtain res tr' where
    "call_functions_loop w acts (outs @ [\<lparr>tool_call_id = call_id a, output_value = r\<rparr>]) tr1
       = (Inr res, tr')"
    by auto
  with a gp show ?case by (simp add: subscript_def)
qed


lemma call_functions_raise:
  assumes "call_functions_loop w acts [] tr = (Inl e, tr')"
  shows "call_functions w g acts rid tr = (Inl e, tr')" and "submissions tr' = submissions tr"
proof -
  show "call_functions w g acts rid tr = (Inl e, tr')"
    using assms by (simp add: call_functions_def)
  show "submissions tr' = submissions tr"
    using loop_submissions [of w acts "[]" tr] assms by simp
qed

lemma call_functions_submit:
  assumes "call_functions_loop w acts [] tr = (Inr outs, tr')"
  shows "snd (call_functions w g acts rid tr) = tr' @ [SubmitToolOutputs (thread_id g) rid outs]"
    and "submissions (snd (call_functions w g acts rid tr)) =
           submissions tr @ [(thread_id g, rid, outs)]"
    and "fst (call_functions w g acts rid tr) =
           (case submit_tool_outputs w (tr' @ [SubmitToolOutputs (thread_id g) rid outs]) of
              Some e \<Rightarrow> Inl e | None \<Rightarrow> Inr ())"
proof -
  show 1: "snd (call_functions w g acts rid tr) = tr' @ [SubmitToolOutputs (thread_id g) rid outs]"
    using assms by (simp add: call_functions_def Let_def split: option.splits)
  have "submissions tr' = submissions tr"
    using loop_submissions [of w acts "[]" tr] assms by simp
  with 1 show "submissions (snd (call_functions w g acts rid tr)) =
           submissions tr @ [(thread_id g, rid, outs)]"
    by (simp add: submissions_append)
  show "fst (call_functions w g acts rid tr) =
           (case submit_tool_outputs w (tr' @ [SubmitToolOutputs (thread_id g) rid outs]) of
              Some e \<Rightarrow> Inl e | None \<Rightarrow> Inr ())"
    using assms by (simp add: call_functions_def Let_def split: option.splits)
qed

lemma call_functions_prefix: "prefix tr (snd (call_functions w g acts rid tr))"
proof -
  obtain r tr1 where l: "call_functions_loop w acts [] tr = (r, tr1)"
    by (cases "call_functions_loop w acts [] tr")
  have "prefix tr tr1" using loop_prefix [of tr w acts "[]"] l by simp
  then show ?thesis using l
    by (cases r) (auto simp: call_functions_def Let_def prefix_def split: option.splits)
qed

section \<open>The poll loop\<close>

lemma final_response_prefix: "prefix tr (snd (final_response w g tr))"
  by (auto simp: final_response_def Let_def split: sum.splits list.splits content_block.splits)

lemma poll_step_prefix: "prefix tr (snd (poll_step w g rid tr))"
proof -
  let ?tr1 = "tr @ [Sleep, RunsRetrieve (thread_id g) rid]"
  have p1: "prefix tr ?tr1" by simp
  show ?thesis
  proof (cases "runs_retrieve w ?tr1")
    case (Inl e)
    then show ?thesis by (simp add: poll_step_def)
  next
    case (Inr rs)
    define d where "d = (if status rs = ''requires_action'' then
                   (case required_action rs of
                      None \<Rightarrow> (Inl AttributeError, ?tr1)
                    | Some tool_calls \<Rightarrow> call_functions w g tool_calls rid ?tr1)
                 else (Inr (), ?tr1))"
    have p2: "prefix ?tr1 (snd d)"
      using call_functions_prefix [of ?tr1 w g _ rid]
      by (auto simp: d_def split: option.splits)
    obtain x tr2 where dx: "d = (x, tr2)" by (cases d)
    with p2 have p3: "prefix tr tr2"
      using p1 prefix_order.trans by fastforce
    have p4: "prefix tr (snd (final_response w g tr2))"
      using p3 final_response_prefix [of tr2 w g] prefix_order.trans by blast
    have "poll_step w g rid tr =
          (case d of (Inl e, tr2) \<Rightarrow> (Some (Inl e), tr2)
           | (Inr _, tr2) \<Rightarrow>
               if status rs = ''completed'' then
                 (case final_response w g tr2 of (r, tr3) \<Rightarrow> (Some r, tr3))
               else (None, tr2))"
      using Inr by (simp add: poll_step_def d_def Let_def)
    then show ?thesis using dx p3 p4
      by (cases x) (auto split: prod.splits)
  qed
qed

lemma poll_step_return:
  assumes "poll_step w g rid tr = (Some (Inr reply), tr')"
  shows "\<exists>r. runs_retrieve w (poll_trace g rid tr) = Inr r \<and> status r = ''completed'' \<and>
             prefix (poll_trace g rid tr) tr'"
proof -
  let ?tr1 = "tr @ [Sleep, RunsRetrieve (thread_id g) rid]"
  from assms obtain rs where rs: "runs_retrieve w ?tr1 = Inr rs"
    by (cases "runs_retrieve w ?tr1") (auto simp: poll_step_def Let_def)
  from assms rs have st: "status rs = ''completed''"
    by (auto simp: poll_step_def Let_def split: if_splits prod.splits sum.splits option.splits)
  with assms rs have "tr' = snd (final_response w g ?tr1)"
    by (auto simp: poll_step_def Let_def split: prod.splits)
  then have "prefix ?tr1 tr'" using final_response_prefix by simp
  with rs st show ?thesis by (auto simp: poll_trace_def)
qed

lemma poll_loop_reply:
  assumes "poll_loop w g rid tr = Some (Inr reply, tr')"
  shows "\<exists>t r. prefix tr t \<and> prefix (poll_trace g rid t) tr' \<and>
               runs_retrieve w (poll_trace g rid t) = Inr r \<and> status r = ''completed''"
proof -
  let ?P = "\<lambda>w g rid tr (y :: (error + string) \<times> event list).
           \<forall>reply tr'. y = (Inr reply, tr') \<longrightarrow>
           (\<exists>t r. prefix tr t \<and> prefix (poll_trace g rid t) tr' \<and>
                  runs_retrieve w (poll_trace g rid t) = Inr r \<and> status r = ''completed'')"
  have "?P w g rid tr (Inr reply, tr')"
  proof (rule poll_loop.raw_induct [where P = ?P, OF _ assms])
    fix f w g rid tr y
    assume IH: "\<And>g rid tr b y. f g rid tr b = Some y \<Longrightarrow> ?P g rid tr b y"
      and body: "(case poll_step w g rid tr of
                    (None, tr') \<Rightarrow> f w g rid tr'
                  | (Some r, tr') \<Rightarrow> Some (r, tr')) = Some y"
    obtain s tr1 where ps: "poll_step w g rid tr = (s, tr1)"
      by (cases "poll_step w g rid tr")
    show "?P w g rid tr y"
    proof (cases s)
      case None
      with ps body have "f w g rid tr1 = Some y" by simp
      from IH [OF this] have ih: "?P w g rid tr1 y" .
      have "prefix tr tr1" using poll_step_prefix [of tr w g rid] ps by simp
      with ih show ?thesis using prefix_order.trans by blast
    next
      case (Some res)
      with ps body have y: "y = (res, tr1)" by simp
      show ?thesis
      proof (intro allI impI)
        fix reply tr'
        assume "y = (Inr reply, tr')"
        with y Some ps have "poll_step w g rid tr = (Some (Inr reply), tr')" by simp
        from poll_step_return [OF this]
        show "\<exists>t r. prefix tr t \<and> prefix (poll_trace g rid t) tr' \<and>
                  runs_retrieve w (poll_trace g rid t) = Inr r \<and> status r = ''completed''"
          by blast
      qed
    qed
  qed
  then show ?thesis by simp
qed

lemma poll_step_continue:
  assumes "runs_retrieve w (poll_trace g rid tr) = Inr r"
    and "status r \<noteq> ''completed''"
    and "dispatch_ok w g r"
  shows "fst (poll_step w g rid tr) = None"
proof (cases "status r = ''requires_action''")
  case False
  with assms show ?thesis by (simp add: poll_step_def poll_trace_def)
next
  case True
  with assms(3) obtain acts where acts: "required_action r = Some acts"
    and ok: "fst (call_functions w g acts rid (poll_trace g rid tr)) = Inr ()"
    by (auto simp: dispatch_ok_def)
  then obtain t where "call_functions w g acts rid (poll_trace g rid tr) = (Inr (), t)"
    by (cases "call_functions w g acts rid (poll_trace g rid tr)") simp
  with assms(1,2) True acts show ?thesis
    by (simp add: poll_step_def poll_trace_def)
qed

lemma poll_loop_diverges:
  assumes polls: "\<forall>h. \<exists>r. runs_retrieve w h = Inr r \<and> status r \<noteq> ''completed'' \<and> dispatch_ok w g r"
  shows "poll_loop w g rid tr = None"
proof (cases "poll_loop w g rid tr")
  case None
  then show ?thesis .
next
  case (Some y)
  let ?P = "\<lambda>w' g' (rid' :: string) (tr' :: event list) (y' :: (error + string) \<times> event list).
              w' = w \<and> g' = g \<longrightarrow> False"
  have "?P w g rid tr y"
  proof (rule poll_loop.raw_induct [where P = ?P, OF _ Some])
    fix f w' g' rid' tr' y'
    assume IH: "\<And>g rid tr b y. f g rid tr b = Some y \<Longrightarrow> ?P g rid tr b y"
      and body: "(case poll_step w' g' rid' tr' of
                    (None, t) \<Rightarrow> f w' g' rid' t
                  | (Some r, t) \<Rightarrow> Some (r, t)) = Some y'"
    show "?P w' g' rid' tr' y'"
    proof
      assume eq: "w' = w \<and> g' = g"
      from polls obtain r where "runs_retrieve w (poll_trace g rid' tr') = Inr r"
        "status r \<noteq> ''completed''" "dispatch_ok w g r" by blast
      from poll_step_continue [OF this] obtain t where "poll_step w g rid' tr' = (None, t)"
        by (cases "poll_step w g rid' tr'") simp
      with body eq have "f w g rid' t = Some y'" by simp
      from IH [OF this] show False by simp
    qed
  qed
  then show ?thesis by simp
qed

lemma poll_loop_passes:
  "poll_passes w g rid n tr = Some t \<Longrightarrow> poll_loop w g rid tr = poll_loop w g rid t"
proof (induction n arbitrary: tr)
  case 0
  then show ?case by simp
next
  case (Suc n)
  from Suc.prems obtain tr1 where ps: "poll_step w g rid tr = (None, tr1)"
    and rest: "poll_passes w g rid n tr1 = Some t"
    by (auto split: prod.splits option.splits)
  have "poll_loop w g rid tr = poll_loop w g rid tr1"
    by (subst poll_loop.simps) (simp add: ps)
  with Suc.IH [OF rest] show ?case by simp
qed

lemma poll_step_dispatch_raises:
  assumes "runs_retrieve w (poll_trace g rid t) = Inr r"
    and "status r = ''requires_action''"
    and "required_action r = Some acts"
    and "call_functions w g acts rid (poll_trace g rid t) = (Inl e, t')"
  shows "poll_step w g rid t = (Some (Inl e), t')"
  using assms by (simp add: poll_step_def poll_trace_def)

lemma poll_loop_dispatch_raises:
  assumes "poll_passes w g rid n tr = Some t"
    and "runs_retrieve w (poll_trace g rid t) = Inr r"
    and "status r = ''requires_action''"
    and "required_action r = Some acts"
    and "call_functions w g acts rid (poll_trace g rid t) = (Inl e, t')"
  shows "poll_loop w g rid tr = Some (Inl e, t')"
proof -
  have "poll_loop w g rid t = Some (Inl e, t')"
    by (subst poll_loop.simps) (simp add: poll_step_dispatch_raises [OF assms(2-5)])
  with poll_loop_passes [OF assms(1)] show ?thesis by simp
qed

section \<open>Facts about the example worlds\<close>

lemmas demo_defs = demo_world_def offline_world_def no_serpapi_world_def no_openai_key_world_def
  stalled_world_def rogue_world_def late_rogue_world_def surrogate_world_def null_price_world_def
  flaky_world_def demo_globals_def demo_json_loads_def red_mug_call_def

lemma demo_loads:
  \<open>json_loads demo_world ''{"query": "red mug"}'' = Some (JObj [(''query'', JStr ''red mug'')])\<close>
  \<open>json_loads demo_world ''{}'' = Some (JObj [])\<close>
  by (simp_all add: demo_world_def demo_json_loads_def)

lemma demo_submit: "submit_tool_outputs demo_world h = None"
  by (simp add: demo_world_def)

lemma demo_world_search:
  "get_products demo_world q h =
     (Inr (Some demo_markdown), h @ [HttpGet base_url (search_params q ''serp-key'')])"
  by (simp add: get_products_def demo_world_def render_data_def top_3_def dict_get_def
        demo_results_def render_result_def py_str_def demo_markdown_def listing_block_def)

lemma no_serpapi_search:
  "get_products no_serpapi_world q h =
     (Inr None, h @ [Print ''SERPAPI environment variable is not set.''])"
  by (simp add: get_products_def demo_defs)

lemma demo_listings: "list_all is_listing (take 3 demo_results)"
  by (simp add: demo_results_def is_listing_def dict_get_def)

section \<open>The properties\<close>

subsection \<open>C1: the poll loop ends only on completed\<close>

text \<open>
  C1, as amended. \<^verbatim>\<open>process_query\<close> returns a reply only when a poll of its loop has
  observed the status \<^verbatim>\<open>completed\<close>: a trace \<open>t\<close> that extends the starting trace exists
  at which the poll answered \<^verbatim>\<open>completed\<close>, and the final trace extends that poll. When
  no poll ever answers \<^verbatim>\<open>completed\<close>, no reply is returned. When moreover no call to the
  engine raises and every dispatch at a \<^verbatim>\<open>requires_action\<close> poll returns without raising,
  the loop goes on for ever, whatever the other statuses are (\<^verbatim>\<open>queued\<close>, \<^verbatim>\<open>in_progress\<close>,
  \<^verbatim>\<open>failed\<close>, \<^verbatim>\<open>cancelled\<close>, \<^verbatim>\<open>expired\<close>): \<^verbatim>\<open>process_query\<close> has the value \<open>None\<close>.
  A dispatch that raises ends \<^verbatim>\<open>process_query\<close> with that exception instead: when the
  message and the run were created, \<open>n\<close> passes of the loop ended in \<^verbatim>\<open>continue\<close>, and
  the next poll answers \<^verbatim>\<open>requires_action\<close> with tool calls on which \<^verbatim>\<open>call_functions\<close>
  raises \<open>e\<close>, then \<^verbatim>\<open>process_query\<close> raises \<open>e\<close>, with the trace of that dispatch.
\<close>

theorem process_query_returns_only_when_completed:
  "(process_query w g user_query interaction_history tr = Some (Inr reply, tr') \<longrightarrow>
      (\<exists>run_id t r. prefix tr t \<and> prefix (poll_trace g run_id t) tr' \<and>
         runs_retrieve w (poll_trace g run_id t) = Inr r \<and> status r = ''completed'')) \<and>
   ((\<forall>h r. runs_retrieve w h = Inr r \<longrightarrow> status r \<noteq> ''completed'') \<longrightarrow>
      process_query w g user_query interaction_history tr \<noteq> Some (Inr reply, tr')) \<and>
   ((\<forall>h. messages_create w h = None) \<and>
    (\<forall>h. \<exists>run_id. runs_create w h = Inr run_id) \<and>
    (\<forall>h. \<exists>r. runs_retrieve w h = Inr r \<and> status r \<noteq> ''completed'' \<and> dispatch_ok w g r) \<longrightarrow>
      process_query w g user_query interaction_history tr = None) \<and>
   (messages_create w (tr @ [MessagesCreate (thread_id g) ''user'' user_query]) = None \<and>
    runs_create w (tr @ [MessagesCreate (thread_id g) ''user'' user_query,
                         RunsCreate (thread_id g) (assistant_id g) run_instructions]) =
      Inr run_id \<and>
    poll_passes w g run_id n
      (tr @ [MessagesCreate (thread_id g) ''user'' user_query,
             RunsCreate (thread_id g) (assistant_id g) run_instructions]) = Some t \<and>
    runs_retrieve w (poll_trace g run_id t) = Inr r \<and>
    status r = ''requires_action'' \<and> required_action r = Some tool_calls \<and>
    call_functions w g tool_calls run_id (poll_trace g run_id t) = (Inl e, t') \<longrightarrow>
      process_query w g user_query interaction_history tr = Some (Inl e, t'))"
proof -
  let ?tr1 = "tr @ [MessagesCreate (thread_id g) ''user'' user_query]"
  let ?tr2 = "?tr1 @ [RunsCreate (thread_id g) (assistant_id g) run_instructions]"
  have d: "process_query w g user_query interaction_history tr = Some (Inl e, t')"
    if "messages_create w ?tr1 = None" "runs_create w ?tr2 = Inr run_id"
      "poll_passes w g run_id n ?tr2 = Some t"
      "runs_retrieve w (poll_trace g run_id t) = Inr r"
      "status r = ''requires_action''" "required_action r = Some tool_calls"
      "call_functions w g tool_calls run_id (poll_trace g run_id t) = (Inl e, t')"
    using that(1,2) poll_loop_dispatch_raises [OF that(3-7)]
    by (simp add: process_query_def Let_def)
  have a: "\<exists>run_id t r. prefix tr t \<and> prefix (poll_trace g run_id t) tr' \<and>
         runs_retrieve w (poll_trace g run_id t) = Inr r \<and> status r = ''completed''"
    if ret: "process_query w g user_query interaction_history tr = Some (Inr reply, tr')"
  proof -
    from ret obtain run_id where "poll_loop w g run_id ?tr2 = Some (Inr reply, tr')"
      by (auto simp: process_query_def Let_def split: option.splits sum.splits)
    from poll_loop_reply [OF this] obtain t r where
      t: "prefix ?tr2 t" "prefix (poll_trace g run_id t) tr'"
         "runs_retrieve w (poll_trace g run_id t) = Inr r" "status r = ''completed''"
      by blast
    have "prefix tr ?tr2" by simp
    from this t(1) have "prefix tr t" by (rule prefix_order.trans)
    with t show ?thesis by blast
  qed
  have b: "process_query w g user_query interaction_history tr \<noteq> Some (Inr reply, tr')"
    if "\<forall>h r. runs_retrieve w h = Inr r \<longrightarrow> status r \<noteq> ''completed''"
    using a that by blast
  have c: "process_query w g user_query interaction_history tr = None"
    if m: "\<forall>h. messages_create w h = None"
      and r: "\<forall>h. \<exists>run_id. runs_create w h = Inr run_id"
      and p: "\<forall>h. \<exists>r. runs_retrieve w h = Inr r \<and> status r \<noteq> ''completed'' \<and> dispatch_ok w g r"
  proof -
    from r obtain run_id where "runs_create w ?tr2 = Inr run_id" by blast
    with m show ?thesis
      by (simp add: process_query_def Let_def poll_loop_diverges [OF p])
  qed
  from a b c d show ?thesis by simp
qed

text \<open>An engine that completes at the first poll gives the reply, and that poll answered
  \<^verbatim>\<open>completed\<close>; an engine that asks for one search, then is in progress, then has failed
  for ever, never lets \<^verbatim>\<open>process_query\<close> return.\<close>

theorem process_query_returns_only_when_completed_witness:
  "process_query demo_world demo_globals ''red mug'' [] [] =
     Some (Inr ''About $10.'',
           [MessagesCreate ''thread_1'' ''user'' ''red mug'',
            RunsCreate ''thread_1'' ''asst_1'' run_instructions,
            Sleep, RunsRetrieve ''thread_1'' ''run_1'', MessagesList ''thread_1'']) \<and>
   runs_retrieve demo_world
     (poll_trace demo_globals ''run_1''
        [MessagesCreate ''thread_1'' ''user'' ''red mug'',
         RunsCreate ''thread_1'' ''asst_1'' run_instructions]) =
     Inr \<lparr>status = ''completed'', required_action = None\<rparr> \<and>
   process_query stalled_world demo_globals ''red mug'' [] [] = None \<and>
   process_query late_rogue_world demo_globals ''red mug'' [] [] =
     Some (Inl (ValueError ''Unknown function: foo''),
           [MessagesCreate ''thread_1'' ''user'' ''red mug'',
            RunsCreate ''thread_1'' ''asst_1'' run_instructions,
            Sleep, RunsRetrieve ''thread_1'' ''run_1'',
            Sleep, RunsRetrieve ''thread_1'' ''run_1''])"
proof -
  let ?start = "[MessagesCreate ''thread_1'' ''user'' ''red mug'',
                 RunsCreate ''thread_1'' ''asst_1'' run_instructions]"
  let ?foo = "\<lparr>call_id = ''call_1'', func_name = ''foo'', arguments = ''{}''\<rparr>"
  have lm: "messages_create late_rogue_world
              ([] @ [MessagesCreate (thread_id demo_globals) ''user'' ''red mug'']) = None"
    by (simp add: demo_defs)
  have lr: "runs_create late_rogue_world
              ([] @ [MessagesCreate (thread_id demo_globals) ''user'' ''red mug'',
                     RunsCreate (thread_id demo_globals) (assistant_id demo_globals)
                       run_instructions]) = Inr ''run_1''"
    by (simp add: demo_defs)
  have lp: "poll_passes late_rogue_world demo_globals ''run_1'' (Suc 0)
              ([] @ [MessagesCreate (thread_id demo_globals) ''user'' ''red mug'',
                     RunsCreate (thread_id demo_globals) (assistant_id demo_globals)
                       run_instructions]) =
            Some (?start @ [Sleep, RunsRetrieve ''thread_1'' ''run_1''])"
    by (simp add: poll_step_def demo_defs)
  have lq: "runs_retrieve late_rogue_world
              (poll_trace demo_globals ''run_1''
                 (?start @ [Sleep, RunsRetrieve ''thread_1'' ''run_1''])) =
            Inr \<lparr>status = ''requires_action'', required_action = Some [?foo]\<rparr>"
    by (simp add: poll_trace_def demo_defs)
  have lc: "call_functions late_rogue_world demo_globals [?foo] ''run_1''
              (poll_trace demo_globals ''run_1''
                 (?start @ [Sleep, RunsRetrieve ''thread_1'' ''run_1''])) =
            (Inl (ValueError ''Unknown function: foo''),
             ?start @ [Sleep, RunsRetrieve ''thread_1'' ''run_1'',
                       Sleep, RunsRetrieve ''thread_1'' ''run_1''])"
    by (simp add: call_functions_def poll_trace_def demo_defs)
  from process_query_returns_only_when_completed
         [of late_rogue_world demo_globals "''red mug''" "[]" "[]" _ _ "''run_1''" "Suc 0"
             "?start @ [Sleep, RunsRetrieve ''thread_1'' ''run_1'']"
             "\<lparr>status = ''requires_action'', required_action = Some [?foo]\<rparr>" "[?foo]"
             "ValueError ''Unknown function: foo''"
             "?start @ [Sleep, RunsRetrieve ''thread_1'' ''run_1'',
                        Sleep, RunsRetrieve ''thread_1'' ''run_1'']"]
       lm lr lp lq lc
  have 4: "process_query late_rogue_world demo_globals ''red mug'' [] [] =
     Some (Inl (ValueError ''Unknown function: foo''),
           ?start @ [Sleep, RunsRetrieve ''thread_1'' ''run_1'',
                     Sleep, RunsRetrieve ''thread_1'' ''run_1''])"
    by simp
  have m: "\<forall>h. messages_create stalled_world h = None"
    by (simp add: demo_defs)
  have r: "\<forall>h. \<exists>run_id. runs_create stalled_world h = Inr run_id"
    by (simp add: demo_defs)
  have d: "fst (call_functions stalled_world demo_globals [red_mug_call ''call_1''] run_id t) = Inr ()"
    for run_id t
    by (simp add: call_functions_def get_products_def subscript_def demo_defs)
  have p: "\<forall>h. \<exists>r. runs_retrieve stalled_world h = Inr r \<and> status r \<noteq> ''completed'' \<and>
             dispatch_ok stalled_world demo_globals r"
    using d by (simp add: dispatch_ok_def stalled_world_def)
  have 1: "process_query demo_world demo_globals ''red mug'' [] [] =
     Some (Inr ''About $10.'',
           [MessagesCreate ''thread_1'' ''user'' ''red mug'',
            RunsCreate ''thread_1'' ''asst_1'' run_instructions,
            Sleep, RunsRetrieve ''thread_1'' ''run_1'', MessagesList ''thread_1''])"
    apply (simp add: process_query_def demo_defs)
    apply (subst poll_loop.simps)
    apply (simp add: poll_step_def final_response_def)
    done
  have 2: "runs_retrieve demo_world
     (poll_trace demo_globals ''run_1''
        [MessagesCreate ''thread_1'' ''user'' ''red mug'',
         RunsCreate ''thread_1'' ''asst_1'' run_instructions]) =
     Inr \<lparr>status = ''completed'', required_action = None\<rparr>"
    by (simp add: demo_defs)
  from process_query_returns_only_when_completed
         [of stalled_world demo_globals "''red mug''" "[]" "[]"] m r p
  have "process_query stalled_world demo_globals ''red mug'' [] [] = None" by blast
  with 1 2 4 show ?thesis by simp
qed

text \<open>The claim without the amendment fails: with an engine that never answers
  \<^verbatim>\<open>completed\<close> but asks for the unregistered function \<^verbatim>\<open>foo\<close>, the loop does not go on
  for ever. The first dispatch raises ValueError and \<^verbatim>\<open>process_query\<close> ends with it after
  one poll.\<close>

theorem process_query_unknown_function_counterexample:
  "process_query rogue_world demo_globals ''red mug'' [] [] =
     Some (Inl (ValueError ''Unknown function: foo''),
           [MessagesCreate ''thread_1'' ''user'' ''red mug'',
            RunsCreate ''thread_1'' ''asst_1'' run_instructions,
            Sleep, RunsRetrieve ''thread_1'' ''run_1''])"
  apply (simp add: process_query_def demo_defs)
  apply (subst poll_loop.simps)
  apply (simp add: poll_step_def call_functions_def demo_json_loads_def)
  done

subsection \<open>C2: one output per request, one submission\<close>

text \<open>  C2, as amended. For every list of pending tool calls whose function names are all
  \<^verbatim>\<open>search_ebay\<close>, whose arguments decode to a dict that has the key \<^verbatim>\<open>query\<close>, in a world
  where no search raises: the loop of \<^verbatim>\<open>call_functions\<close> collects exactly one output per
  request, with the ids of the requests in their order, and \<^verbatim>\<open>call_functions\<close> ends its trace
  with the one call of \<^verbatim>\<open>submit_tool_outputs\<close> that carries this batch and the given run
  id; it is the only submission the call adds.\<close>

theorem call_functions_one_output_per_request:
  assumes "\<forall>a\<in>set required_actions. func_name a = ''search_ebay''"
    and "\<forall>a\<in>set required_actions. \<exists>d q.
           json_loads w (arguments a) = Some (JObj d) \<and> map_of d ''query'' = Some q"
    and "\<forall>q h. \<exists>r. fst (get_products w q h) = Inr r"
  shows "\<exists>tool_outputs tr'.
           call_functions_loop w required_actions [] tr = (Inr tool_outputs, tr') \<and>
           map tool_call_id tool_outputs = map call_id required_actions \<and>
           snd (call_functions w g required_actions run_id tr) =
             tr' @ [SubmitToolOutputs (thread_id g) run_id tool_outputs] \<and>
           submissions (snd (call_functions w g required_actions run_id tr)) =
             submissions tr @ [(thread_id g, run_id, tool_outputs)]"
proof -
  from loop_total [OF assms, of "[]" tr] obtain outs tr' where
    l: "call_functions_loop w required_actions [] tr = (Inr outs, tr')" by blast
  from loop_outputs [OF l] have "map tool_call_id outs = map call_id required_actions" by simp
  with l call_functions_submit(1,2) [OF l, of g run_id] show ?thesis by blast
qed

theorem call_functions_one_output_per_request_witness:
  "call_functions demo_world demo_globals
     [red_mug_call ''call_1'', red_mug_call ''call_2''] ''run_1'' [] =
   (Inr (),
    [demo_request, demo_request,
     SubmitToolOutputs ''thread_1'' ''run_1''
       [\<lparr>tool_call_id = ''call_1'', output_value = Some demo_markdown\<rparr>,
        \<lparr>tool_call_id = ''call_2'', output_value = Some demo_markdown\<rparr>]])"
proof -
  let ?acts = "[red_mug_call ''call_1'', red_mug_call ''call_2'']"
  have n: "\<forall>a\<in>set ?acts. func_name a = ''search_ebay''"
    by (simp add: red_mug_call_def)
  have a: "\<forall>a\<in>set ?acts. \<exists>d q.
           json_loads demo_world (arguments a) = Some (JObj d) \<and> map_of d ''query'' = Some q"
    by (simp add: demo_defs)
  have s: "\<forall>q h. \<exists>r. fst (get_products demo_world q h) = Inr r"
    by (simp add: demo_world_search)
  from call_functions_one_output_per_request [OF n a s, of "[]" demo_globals "''run_1''"]
  obtain tool_outputs tr' where
    "call_functions_loop demo_world ?acts [] [] = (Inr tool_outputs, tr')"
    "snd (call_functions demo_world demo_globals ?acts ''run_1'' []) =
       tr' @ [SubmitToolOutputs (thread_id demo_globals) ''run_1'' tool_outputs]"
    by blast
  moreover have "call_functions_loop demo_world ?acts [] [] =
     (Inr [\<lparr>tool_call_id = ''call_1'', output_value = Some demo_markdown\<rparr>,
           \<lparr>tool_call_id = ''call_2'', output_value = Some demo_markdown\<rparr>],
      [demo_request, demo_request])"
    by (simp add: demo_world_search subscript_def demo_request_def base_url_def
          search_params_def red_mug_call_def demo_loads)
  ultimately have "snd (call_functions demo_world demo_globals ?acts ''run_1'' []) =
    [demo_request, demo_request,
     SubmitToolOutputs ''thread_1'' ''run_1''
       [\<lparr>tool_call_id = ''call_1'', output_value = Some demo_markdown\<rparr>,
        \<lparr>tool_call_id = ''call_2'', output_value = Some demo_markdown\<rparr>]]"
    by (simp add: demo_globals_def)
  moreover have "fst (call_functions demo_world demo_globals ?acts ''run_1'' []) = Inr ()"
    by (simp add: call_functions_def demo_world_search subscript_def red_mug_call_def
          demo_loads demo_submit)
  ultimately show ?thesis by (simp add: prod_eq_iff)
qed

text \<open>The claim without the amendment fails: a request for \<^verbatim>\<open>search_ebay\<close> whose arguments are
  \<^verbatim>\<open>{}\<close> raises KeyError at \<^verbatim>\<open>arguments['query']\<close>; no output is produced and nothing
  is submitted.\<close>

theorem call_functions_missing_query_counterexample:
  "call_functions demo_world demo_globals
     [\<lparr>call_id = ''call_1'', func_name = ''search_ebay'', arguments = ''{}''\<rparr>] ''run_1'' [] =
   (Inl (KeyError ''query''), [])"
  by (simp add: call_functions_def demo_defs subscript_def)

subsection \<open>C3: an unregistered function name raises\<close>




subsection \<open>C4: no partial submission\<close>

text \<open>
  C4. If a handler invocation raises, at any position of the batch, the submission is not
  reached: when the requests before it were handled and their outputs collected, and
  \<^verbatim>\<open>get_products\<close> raises \<open>e\<close> for the request, \<^verbatim>\<open>call_functions\<close> raises \<open>e\<close> with the
  trace of that search, and the trace holds no submission that was not there before. The
  same holds for the unknown-function error, raised for a request whose name is not
  registered, and for every other exception of the loop (arguments that do not decode
  or lack \<^verbatim>\<open>query\<close>): \<^verbatim>\<open>call_functions\<close> raises what the loop raised, with the loop's
  trace, and nothing is submitted.
\<close>

theorem call_functions_no_partial_submission:
  "(call_functions_loop w before [] tr = (Inr tool_outputs, tr1) \<and>
    func_name a = ''search_ebay'' \<and> json_loads w (arguments a) = Some args \<and>
    subscript args ''query'' = Inr query \<and> get_products w query tr1 = (Inl e, tr2) \<longrightarrow>
      call_functions w g (before @ a # after) run_id tr = (Inl e, tr2) \<and>
      submissions tr2 = submissions tr) \<and>
   (call_functions_loop w before [] tr = (Inr tool_outputs, tr1) \<and>
    func_name a \<noteq> ''search_ebay'' \<and> json_loads w (arguments a) = Some args \<longrightarrow>
      call_functions w g (before @ a # after) run_id tr =
        (Inl (ValueError (''Unknown function: '' @ func_name a)), tr1) \<and>
      submissions tr1 = submissions tr) \<and>
   (call_functions_loop w required_actions [] tr = (Inl e', tr') \<longrightarrow>
      call_functions w g required_actions run_id tr = (Inl e', tr') \<and>
      submissions tr' = submissions tr)"
proof -
  have a: "call_functions w g (before @ a # after) run_id tr = (Inl e, tr2) \<and>
           submissions tr2 = submissions tr"
    if "call_functions_loop w before [] tr = (Inr tool_outputs, tr1)"
      "func_name a = ''search_ebay''" "json_loads w (arguments a) = Some args"
      "subscript args ''query'' = Inr query" "get_products w query tr1 = (Inl e, tr2)"
  proof -
    from that have "call_functions_loop w (before @ a # after) [] tr = (Inl e, tr2)"
      by (simp add: loop_append)
    from call_functions_raise [OF this] show ?thesis by simp
  qed
  have b: "call_functions w g (before @ a # after) run_id tr =
             (Inl (ValueError (''Unknown function: '' @ func_name a)), tr1) \<and>
           submissions tr1 = submissions tr"
    if "call_functions_loop w before [] tr = (Inr tool_outputs, tr1)"
      "func_name a \<noteq> ''search_ebay''" "json_loads w (arguments a) = Some args"
  proof -
    from that have "call_functions_loop w (before @ a # after) [] tr =
        (Inl (ValueError (''Unknown function: '' @ func_name a)), tr1)"
      by (simp add: loop_append)
    from call_functions_raise [OF this] show ?thesis by simp
  qed
  have c: "call_functions w g required_actions run_id tr = (Inl e', tr') \<and>
           submissions tr' = submissions tr"
    if "call_functions_loop w required_actions [] tr = (Inl e', tr')"
    using call_functions_raise [OF that] by simp
  from a b c show ?thesis by blast
qed

text \<open>One output has been collected for the first request when the second raises; nothing
  is submitted.\<close>

theorem call_functions_no_partial_submission_witness:
  "get_products flaky_world (JStr ''red mug'') [demo_request] =
     (Inl AttributeError, [demo_request, demo_request]) \<and>
   call_functions flaky_world demo_globals
     [red_mug_call ''call_1'', red_mug_call ''call_2'', red_mug_call ''call_3''] ''run_1'' [] =
   (Inl AttributeError, [demo_request, demo_request]) \<and>
   submissions [demo_request, demo_request] = []"
proof -
  have loads: \<open>json_loads flaky_world ''{"query": "red mug"}'' =
                 Some (JObj [(''query'', JStr ''red mug'')])\<close>
    by (simp add: demo_defs)
  have g1: "get_products flaky_world (JStr ''red mug'') [] =
              (Inr (Some demo_markdown), [demo_request])"
    by (simp add: get_products_def flaky_world_def demo_world_def render_data_def top_3_def
          dict_get_def demo_results_def render_result_def py_str_def demo_markdown_def
          listing_block_def demo_request_def base_url_def search_params_def)
  have b: "call_functions_loop flaky_world [red_mug_call ''call_1''] [] [] =
             (Inr [\<lparr>tool_call_id = ''call_1'', output_value = Some demo_markdown\<rparr>],
              [demo_request])"
    using loads g1 by (simp add: red_mug_call_def subscript_def)
  have f: "func_name (red_mug_call ''call_2'') = ''search_ebay''" by (simp add: red_mug_call_def)
  have j: "json_loads flaky_world (arguments (red_mug_call ''call_2'')) =
             Some (JObj [(''query'', JStr ''red mug'')])"
    using loads by (simp add: red_mug_call_def)
  have q: "subscript (JObj [(''query'', JStr ''red mug'')]) ''query'' = Inr (JStr ''red mug'')"
    by (simp add: subscript_def)
  have g2: "get_products flaky_world (JStr ''red mug'') [demo_request] =
              (Inl AttributeError, [demo_request, demo_request])"
    by (simp add: get_products_def flaky_world_def demo_world_def render_data_def
          demo_request_def base_url_def search_params_def)
  from call_functions_no_partial_submission
         [of flaky_world "[red_mug_call ''call_1'']" "[]" _ "[demo_request]"
             "red_mug_call ''call_2''" "JObj [(''query'', JStr ''red mug'')]" "JStr ''red mug''"
             AttributeError "[demo_request, demo_request]" demo_globals
             "[red_mug_call ''call_3'']" "''run_1''"]
       b f j q g2
  have "call_functions flaky_world demo_globals
          ([red_mug_call ''call_1''] @ red_mug_call ''call_2'' # [red_mug_call ''call_3''])
          ''run_1'' [] = (Inl AttributeError, [demo_request, demo_request]) \<and>
        submissions [demo_request, demo_request] = submissions []"
    by blast
  with g2 show ?thesis by simp
qed

subsection \<open>C5: a failed search is None\<close>

text \<open>
  C5, as amended. For every query, when the variable \<^verbatim>\<open>SERPAPI\<close> is absent, or when it is
  set and the request fails with a \<^verbatim>\<open>requests.RequestException\<close> (\<^verbatim>\<open>requests.get\<close> or
  \<^verbatim>\<open>raise_for_status\<close> raises one), \<^verbatim>\<open>get_products\<close> returns \<^verbatim>\<open>None\<close> and does not raise.
  An exception of another class raised by \<^verbatim>\<open>requests.get\<close> (UnicodeEncodeError for a
  query that cannot be encoded) is not caught: \<^verbatim>\<open>get_products\<close> raises it.
\<close>

theorem get_products_none_on_failure:
  "(environ w ''SERPAPI'' = None \<or>
    (\<exists>api_key msg. environ w ''SERPAPI'' = Some api_key \<and>
       http_get w (tr @ [HttpGet base_url (search_params query api_key)])
         \<in> {RequestFailed msg, StatusError msg}) \<longrightarrow>
      fst (get_products w query tr) = Inr None) \<and>
   (environ w ''SERPAPI'' = Some api_key \<and> api_key \<noteq> [] \<and>
    http_get w (tr @ [HttpGet base_url (search_params query api_key)]) = Raised e \<longrightarrow>
      get_products w query tr =
        (Inl e, tr @ [HttpGet base_url (search_params query api_key)]))"
  by (auto simp: get_products_def Let_def)

theorem get_products_none_on_failure_witness:
  "environ offline_world ''SERPAPI'' = Some ''serp-key'' \<and>
   http_get offline_world [HttpGet base_url (search_params (JStr ''red mug'') ''serp-key'')] =
     RequestFailed ''connection refused'' \<and>
   fst (get_products offline_world (JStr ''red mug'') []) = Inr None \<and>
   environ no_serpapi_world ''SERPAPI'' = None \<and>
   fst (get_products no_serpapi_world (JStr ''red mug'') []) = Inr None"
proof -
  have e: "environ offline_world ''SERPAPI'' = Some ''serp-key''"
    by (simp add: demo_defs)
  have h: "http_get offline_world ([] @ [HttpGet base_url (search_params (JStr ''red mug'') ''serp-key'')]) =
     RequestFailed ''connection refused''"
    by (simp add: demo_defs)
  from e h have "environ offline_world ''SERPAPI'' = None \<or>
           (\<exists>api_key msg. environ offline_world ''SERPAPI'' = Some api_key \<and>
              http_get offline_world ([] @ [HttpGet base_url (search_params (JStr ''red mug'') api_key)])
                \<in> {RequestFailed msg, StatusError msg})"
    by auto
  with get_products_none_on_failure [of offline_world "[]" "JStr ''red mug''"]
  have 1: "fst (get_products offline_world (JStr ''red mug'') []) = Inr None" by blast
  have n: "environ no_serpapi_world ''SERPAPI'' = None" by (simp add: demo_defs)
  with get_products_none_on_failure [of no_serpapi_world "[]" "JStr ''red mug''"]
  have 2: "fst (get_products no_serpapi_world (JStr ''red mug'') []) = Inr None" by blast
  from e h 1 n 2 show ?thesis by simp
qed

text \<open>The claim for every query fails: with the credential set and the provider out of
  reach, a query that holds a lone surrogate makes \<^verbatim>\<open>requests.get\<close> raise
  UnicodeEncodeError, which is not a \<^verbatim>\<open>RequestException\<close>; \<^verbatim>\<open>get_products\<close> raises it
  instead of returning \<^verbatim>\<open>None\<close>.\<close>

theorem get_products_surrogate_query_counterexample:
  "get_products surrogate_world (JStr lone_surrogate) [] =
     (Inl UnicodeEncodeError,
      [HttpGet base_url (search_params (JStr lone_surrogate) ''serp-key'')])"
  by (simp add: get_products_def demo_defs)

subsection \<open>C6: the first three results, in order\<close>

text \<open>
  C6, as amended. For every response that succeeds with a JSON dict whose
  \<^verbatim>\<open>organic_results\<close> (the empty list when absent) is a list of \<open>n\<close> entries, the first
  three of them dicts whose \<^verbatim>\<open>price\<close>, when present, is a dict: \<^verbatim>\<open>get_products\<close> returns the
  concatenation of \<open>min 3 n\<close> blocks, the \<open>i\<close>-th block being the four lines written for
  the \<open>i\<close>-th entry, in the provider's order: the title linked to the link, the price
  (\<^verbatim>\<open>N/A\<close> when \<^verbatim>\<open>price\<close> has no \<^verbatim>\<open>raw\<close>), the link and the thumbnail; with no entry the
  result is the empty string.
\<close>

theorem get_products_top_three:
  assumes "environ w ''SERPAPI'' = Some api_key" and "api_key \<noteq> []"
    and "http_get w (tr @ [HttpGet base_url (search_params query api_key)]) = JsonBody (JObj d)"
    and "dict_get d ''organic_results'' (JArr []) = JArr entries"
    and "list_all is_listing (take 3 entries)"
  shows "\<exists>blocks.
           fst (get_products w query tr) = Inr (Some (concat blocks)) \<and>
           length blocks = min 3 (length entries) \<and>
           (\<forall>i<length blocks. \<exists>r p.
              entries ! i = JObj r \<and> dict_get r ''price'' (JObj []) = JObj p \<and>
              blocks ! i =
                ''- **Title:** ['' @ py_str w (dict_get r ''title'' JNull) @ '']('' @ py_str w (dict_get r ''link'' JNull) @ '')'' @ [CHR 0x0A] @
                ''  - **Price:** '' @ py_str w (dict_get p ''raw'' (JStr ''N/A'')) @ [CHR 0x0A] @
                ''  - **Link:** [View on eBay]('' @ py_str w (dict_get r ''link'' JNull) @ '')'' @ [CHR 0x0A] @
                ''  - **Image:** ![Image]('' @ py_str w (dict_get r ''thumbnail'' JNull) @ '')'' @ [CHR 0x0A, CHR 0x0A]) \<and>
           (entries = [] \<longrightarrow> fst (get_products w query tr) = Inr (Some []))"
  using get_products_blocks [OF assms] unfolding listing_block_def .

text \<open>Five results come back; the text holds the blocks of the first three.\<close>

theorem get_products_top_three_witness:
  "(\<exists>blocks. fst (get_products demo_world (JStr ''gladiator sandals'') []) =
               Inr (Some (concat blocks)) \<and> length blocks = 3) \<and>
   fst (get_products demo_world (JStr ''gladiator sandals'') []) =
     Inr (Some
       (''- **Title:** [Sandal A](l1)'' @ [CHR 0x0A] @
        ''  - **Price:** $10.00'' @ [CHR 0x0A] @
        ''  - **Link:** [View on eBay](l1)'' @ [CHR 0x0A] @
        ''  - **Image:** ![Image](t1)'' @ [CHR 0x0A, CHR 0x0A] @
        ''- **Title:** [Sandal B](l2)'' @ [CHR 0x0A] @
        ''  - **Price:** N/A'' @ [CHR 0x0A] @
        ''  - **Link:** [View on eBay](l2)'' @ [CHR 0x0A] @
        ''  - **Image:** ![Image](t2)'' @ [CHR 0x0A, CHR 0x0A] @
        ''- **Title:** [Sandal C](l3)'' @ [CHR 0x0A] @
        ''  - **Price:** N/A'' @ [CHR 0x0A] @
        ''  - **Link:** [View on eBay](l3)'' @ [CHR 0x0A] @
        ''  - **Image:** ![Image](t3)'' @ [CHR 0x0A, CHR 0x0A]))"
proof -
  have e: "environ demo_world ''SERPAPI'' = Some ''serp-key''" by (simp add: demo_defs)
  have k: "''serp-key'' \<noteq> []" by simp
  have h: "http_get demo_world
             ([] @ [HttpGet base_url (search_params (JStr ''gladiator sandals'') ''serp-key'')]) =
           JsonBody (JObj [(''organic_results'', JArr demo_results)])"
    by (simp add: demo_defs)
  have d: "dict_get [(''organic_results'', JArr demo_results)] ''organic_results'' (JArr []) =
           JArr demo_results"
    by (simp add: dict_get_def)
  from get_products_top_three [OF e k h d demo_listings] obtain blocks where
    "fst (get_products demo_world (JStr ''gladiator sandals'') []) = Inr (Some (concat blocks))"
    "length blocks = min 3 (length demo_results)"
    by blast
  moreover have "length demo_results = 5" by (simp add: demo_results_def)
  ultimately show ?thesis by (auto simp: demo_world_search demo_markdown_def)
qed

text \<open>The claim for every response that succeeds fails: a response with status 200 whose
  one result has the price \<^verbatim>\<open>null\<close> makes \<^verbatim>\<open>result.get("price", {}).get\<close> raise
  AttributeError, which line 73 does not catch; no text is returned.\<close>

theorem get_products_null_price_counterexample:
  "get_products null_price_world (JStr ''gladiator sandals'') [] =
     (Inl AttributeError,
      [HttpGet ''https://serpapi.com/search.json''
         [(''engine'', JStr ''ebay''), (''_nkw'', JStr ''gladiator sandals''),
          (''ebay_domain'', JStr ''ebay.com''), (''api_key'', JStr ''serp-key'')]])"
  by (simp add: get_products_def demo_defs render_data_def top_3_def dict_get_def
        render_result_def base_url_def search_params_def)

subsection \<open>C7: a missing price is N/A\<close>

text \<open>
  C7. An entry that has no \<^verbatim>\<open>price\<close> field is rendered by the loop body as the four-line
  block whose second line is exactly \<^verbatim>\<open>  - **Price:** N/A\<close>; when the entry is among the
  first three of a response of the shape above, the text returned by \<^verbatim>\<open>get_products\<close>
  holds that block.
\<close>

theorem get_products_missing_price:
  "(map_of r ''price'' = None \<longrightarrow>
      render_result w (JObj r) =
        Inr (''- **Title:** ['' @ py_str w (dict_get r ''title'' JNull) @ '']('' @ py_str w (dict_get r ''link'' JNull) @ '')'' @ [CHR 0x0A] @
             ''  - **Price:** '' @ ''N/A'' @ [CHR 0x0A] @
             ''  - **Link:** [View on eBay]('' @ py_str w (dict_get r ''link'' JNull) @ '')'' @ [CHR 0x0A] @
             ''  - **Image:** ![Image]('' @ py_str w (dict_get r ''thumbnail'' JNull) @ '')'' @ [CHR 0x0A, CHR 0x0A])) \<and>
   (environ w ''SERPAPI'' = Some api_key \<and> api_key \<noteq> [] \<and>
    http_get w (tr @ [HttpGet base_url (search_params query api_key)]) = JsonBody (JObj d) \<and>
    dict_get d ''organic_results'' (JArr []) = JArr entries \<and>
    list_all is_listing (take 3 entries) \<and>
    i < min 3 (length entries) \<and> entries ! i = JObj r \<and> map_of r ''price'' = None \<longrightarrow>
      (\<exists>before after.
         fst (get_products w query tr) =
           Inr (Some (before @
                      ''- **Title:** ['' @ py_str w (dict_get r ''title'' JNull) @ '']('' @ py_str w (dict_get r ''link'' JNull) @ '')'' @ [CHR 0x0A] @
                      ''  - **Price:** '' @ ''N/A'' @ [CHR 0x0A] @
                      ''  - **Link:** [View on eBay]('' @ py_str w (dict_get r ''link'' JNull) @ '')'' @ [CHR 0x0A] @
                      ''  - **Image:** ![Image]('' @ py_str w (dict_get r ''thumbnail'' JNull) @ '')'' @ [CHR 0x0A, CHR 0x0A] @
                      after))))"
proof -
  have a: "render_result w (JObj r) =
          Inr (listing_block (py_str w (dict_get r ''title'' JNull)) ''N/A''
                 (py_str w (dict_get r ''link'' JNull))
                 (py_str w (dict_get r ''thumbnail'' JNull)))"
    if "map_of r ''price'' = None"
    using that by (simp add: render_result_def dict_get_def py_str_def)
  have b: "\<exists>before after.
         fst (get_products w query tr) =
           Inr (Some (before @
                      listing_block (py_str w (dict_get r ''title'' JNull)) ''N/A''
                        (py_str w (dict_get r ''link'' JNull))
                        (py_str w (dict_get r ''thumbnail'' JNull)) @
                      after))"
    if "environ w ''SERPAPI'' = Some api_key" "api_key \<noteq> []"
      "http_get w (tr @ [HttpGet base_url (search_params query api_key)]) = JsonBody (JObj d)"
      "dict_get d ''organic_results'' (JArr []) = JArr entries"
      "list_all is_listing (take 3 entries)"
      "i < min 3 (length entries)" "entries ! i = JObj r" "map_of r ''price'' = None"
    using get_products_block_without_price [OF that] .
  from a b show ?thesis
    unfolding listing_block_def by (simp only: append_assoc) blast
qed

theorem get_products_missing_price_witness:
  "render_result demo_world
     (JObj [(''title'', JStr ''Sandal B''), (''link'', JStr ''l2''),
            (''thumbnail'', JStr ''t2'')]) =
     Inr (''- **Title:** [Sandal B](l2)'' @ [CHR 0x0A] @
          ''  - **Price:** N/A'' @ [CHR 0x0A] @
          ''  - **Link:** [View on eBay](l2)'' @ [CHR 0x0A] @
          ''  - **Image:** ![Image](t2)'' @ [CHR 0x0A, CHR 0x0A]) \<and>
   (\<exists>before after.
      fst (get_products demo_world (JStr ''gladiator sandals'') []) =
        Inr (Some (before @
                   (''- **Title:** [Sandal B](l2)'' @ [CHR 0x0A] @
                    ''  - **Price:** N/A'' @ [CHR 0x0A] @
                    ''  - **Link:** [View on eBay](l2)'' @ [CHR 0x0A] @
                    ''  - **Image:** ![Image](t2)'' @ [CHR 0x0A, CHR 0x0A]) @
                   after)))"
proof -
  let ?r = "[(''title'', JStr ''Sandal B''), (''link'', JStr ''l2''), (''thumbnail'', JStr ''t2'')]"
  have e: "environ demo_world ''SERPAPI'' = Some ''serp-key''" by (simp add: demo_defs)
  have k: "''serp-key'' \<noteq> []" by simp
  have h: "http_get demo_world
             ([] @ [HttpGet base_url (search_params (JStr ''gladiator sandals'') ''serp-key'')]) =
           JsonBody (JObj [(''organic_results'', JArr demo_results)])"
    by (simp add: demo_defs)
  have d: "dict_get [(''organic_results'', JArr demo_results)] ''organic_results'' (JArr []) =
           JArr demo_results"
    by (simp add: dict_get_def)
  have i: "(1::nat) < min 3 (length demo_results)" by (simp add: demo_results_def)
  have n: "demo_results ! 1 = JObj ?r" by (simp add: demo_results_def)
  have p: "map_of ?r ''price'' = None" by simp
  from get_products_missing_price
         [of ?r demo_world "''serp-key''" "[]" "JStr ''gladiator sandals''"
             "[(''organic_results'', JArr demo_results)]" demo_results 1]
       e k h d demo_listings i n p
  show ?thesis by (simp add: dict_get_def py_str_def)
qed

subsection \<open>C8: no OpenAI key, no start\<close>

text \<open>  C8. If \<^verbatim>\<open>OPENAI_API_KEY\<close> is absent from the environment, module initialisation
  raises (in the client's constructor, or else at the module's own check) before any
  call to the engine: the trace is unchanged, no thread and no assistant exist for a
  query to use, and \<^verbatim>\<open>main\<close> ends with the error on an empty trace, without
  \<^verbatim>\<open>Launch\<close>.\<close>

theorem startup_fatal_without_api_key:
  assumes "environ w ''OPENAI_API_KEY'' = None"
  shows "(\<exists>e. module_init w tr = (Inl e, tr)) \<and> (\<exists>e. main w = (Inl e, []))"
proof -
  have i: "\<exists>e. module_init w t = (Inl e, t)" for t
    using assms by (cases "openai_client w None") (simp_all add: module_init_def)
  from i [of "[]"] obtain e where "module_init w [] = (Inl e, [])" by blast
  then have "main w = (Inl e, [])" by (simp add: main_def)
  with i [of tr] show ?thesis by blast
qed

theorem startup_fatal_without_api_key_witness:
  "environ no_openai_key_world ''OPENAI_API_KEY'' = None \<and>
   main no_openai_key_world = (Inl (OpenAIError ''api_key must be set''), [])"
proof -
  have e: "environ no_openai_key_world ''OPENAI_API_KEY'' = None" by (simp add: demo_defs)
  from startup_fatal_without_api_key [OF e, of "[]"] obtain err where
    "main no_openai_key_world = (Inl err, [])" by blast
  moreover have "module_init no_openai_key_world [] = (Inl (OpenAIError ''api_key must be set''), [])"
    by (simp add: module_init_def demo_defs)
  ultimately show ?thesis using e by (simp add: main_def)
qed

subsection \<open>C9: the chat history is not read\<close>

text \<open>  C9. \<^verbatim>\<open>process_query\<close> does not read \<^verbatim>\<open>interaction_history\<close>: for every query, world and
  starting trace, any two histories give the same outcome, that is the same reply or
  error, the same trace of outside calls, or the same failure to return.\<close>

theorem process_query_ignores_interaction_history:
  "process_query w g user_query history1 tr = process_query w g user_query history2 tr"
  by (simp add: process_query_def)

theorem process_query_ignores_interaction_history_witness:
  "process_query demo_world demo_globals ''red mug'' [] [] =
   process_query demo_world demo_globals ''red mug''
     [(''how much is a red mug?'', ''About $10.'')] []"
  using process_query_ignores_interaction_history
          [of demo_world demo_globals "''red mug''" "[]" "[]"
              "[(''how much is a red mug?'', ''About $10.'')]"]
  by simp

subsection \<open>C10: a None output is submitted as it is\<close>

text \<open>  C10. When \<^verbatim>\<open>get_products\<close> returns \<^verbatim>\<open>None\<close> for a request, at any position of a batch
  whose other requests are handled without raising, the batch that \<^verbatim>\<open>call_functions\<close>
  submits holds, at that position, the entry with the request's id and the output
  \<^verbatim>\<open>None\<close>; the entry is neither dropped nor replaced, and it raises no error.\<close>

theorem call_functions_submits_none_output:
  assumes "call_functions_loop w before [] tr = (Inr outs_before, tr1)"
    and "func_name a = ''search_ebay''"
    and "json_loads w (arguments a) = Some args"
    and "subscript args ''query'' = Inr query"
    and "get_products w query tr1 = (Inr None, tr2)"
    and "call_functions_loop w after [] tr2 = (Inr outs_after, tr3)"
  shows "snd (call_functions w g (before @ a # after) run_id tr) =
           tr3 @ [SubmitToolOutputs (thread_id g) run_id
                    (outs_before @ \<lparr>tool_call_id = call_id a, output_value = None\<rparr> # outs_after)]"
proof -
  have "call_functions_loop w after
          (outs_before @ [\<lparr>tool_call_id = call_id a, output_value = None\<rparr>]) tr2 =
        (Inr ((outs_before @ [\<lparr>tool_call_id = call_id a, output_value = None\<rparr>]) @ outs_after), tr3)"
    using assms(6) by (subst loop_shift) simp
  with assms(1-5) have "call_functions_loop w (before @ a # after) [] tr =
      (Inr (outs_before @ \<lparr>tool_call_id = call_id a, output_value = None\<rparr> # outs_after), tr3)"
    by (simp add: loop_append)
  from call_functions_submit(1) [OF this] show ?thesis .
qed

text \<open>Without the search credential both searches of a batch return \<^verbatim>\<open>None\<close>, and both
  are submitted so.\<close>

theorem call_functions_submits_none_output_witness:
  "call_functions no_serpapi_world demo_globals
     [red_mug_call ''call_1'', red_mug_call ''call_2''] ''run_1'' [] =
   (Inr (),
    [Print ''SERPAPI environment variable is not set.'',
     Print ''SERPAPI environment variable is not set.'',
     SubmitToolOutputs ''thread_1'' ''run_1''
       [\<lparr>tool_call_id = ''call_1'', output_value = None\<rparr>,
        \<lparr>tool_call_id = ''call_2'', output_value = None\<rparr>]])"
proof -
  let ?p = "Print ''SERPAPI environment variable is not set.''"
  have loads: \<open>json_loads no_serpapi_world ''{"query": "red mug"}'' =
                 Some (JObj [(''query'', JStr ''red mug'')])\<close>
    by (simp add: demo_defs)
  have b: "call_functions_loop no_serpapi_world [] [] [] = (Inr [], [])" by simp
  have f: "func_name (red_mug_call ''call_1'') = ''search_ebay''" by (simp add: red_mug_call_def)
  have j: "json_loads no_serpapi_world (arguments (red_mug_call ''call_1'')) =
             Some (JObj [(''query'', JStr ''red mug'')])"
    using loads by (simp add: red_mug_call_def)
  have q: "subscript (JObj [(''query'', JStr ''red mug'')]) ''query'' = Inr (JStr ''red mug'')"
    by (simp add: subscript_def)
  have g: "get_products no_serpapi_world (JStr ''red mug'') [] = (Inr None, [?p])"
    by (simp add: no_serpapi_search)
  have a: "call_functions_loop no_serpapi_world [red_mug_call ''call_2''] [] [?p] =
             (Inr [\<lparr>tool_call_id = ''call_2'', output_value = None\<rparr>], [?p, ?p])"
    using loads by (simp add: red_mug_call_def subscript_def no_serpapi_search)
  from call_functions_submits_none_output [OF b f j q g a, of demo_globals "''run_1''"]
  have "snd (call_functions no_serpapi_world demo_globals
               [red_mug_call ''call_1'', red_mug_call ''call_2''] ''run_1'' []) =
        [?p, ?p, SubmitToolOutputs ''thread_1'' ''run_1''
           [\<lparr>tool_call_id = ''call_1'', output_value = None\<rparr>,
            \<lparr>tool_call_id = ''call_2'', output_value = None\<rparr>]]"
    by (simp add: demo_globals_def red_mug_call_def)
  moreover have "fst (call_functions no_serpapi_world demo_globals
               [red_mug_call ''call_1'', red_mug_call ''call_2''] ''run_1'' []) = Inr ()"
    using loads
    by (simp add: call_functions_def red_mug_call_def subscript_def no_serpapi_search)
       (simp add: demo_defs)
  ultimately show ?thesis by (simp add: prod_eq_iff)
qed

end
